(* ===== verification/Prelude.thy ===== *)
theory Prelude
  imports Main
begin

text \<open>
  Shared vocabulary of the development: the Python exceptions the program can raise, a
  result type for fallible code, and the Python string builtins that
  \<^verbatim>\<open>src/json2apex.py\<close> calls (\<^verbatim>\<open>str.split\<close>, \<^verbatim>\<open>str.join\<close>,
  \<^verbatim>\<open>str.upper\<close>, \<^verbatim>\<open>str.lower\<close>, \<^verbatim>\<open>str.capitalize\<close>,
  \<^verbatim>\<open>str.isidentifier\<close>, indexing \<^verbatim>\<open>s[0]\<close>), modelled on ASCII text.
  A Python \<^verbatim>\<open>str\<close> is a sequence of code points; here it is a \<open>string\<close>, and
  the case mappings and the identifier test are those Python applies to ASCII
  characters. Characters outside ASCII are left unchanged by the case mappings and are
  not identifier characters (Python would case-map and accept some of them).
\<close>

named_theorems py_simps \<open>evaluation rules for the modelled Python builtins\<close>

section \<open>Exceptions and results\<close>

datatype py_error = IndexError | ValueError string

type_synonym 'a result = "py_error + 'a"

section \<open>Character classes and case mappings (ASCII)\<close>

definition is_ascii_upper :: "char \<Rightarrow> bool" where
  "is_ascii_upper c \<longleftrightarrow> (65::nat) \<le> of_char c \<and> of_char c \<le> (90::nat)"

definition is_ascii_lower :: "char \<Rightarrow> bool" where
  "is_ascii_lower c \<longleftrightarrow> (97::nat) \<le> of_char c \<and> of_char c \<le> (122::nat)"

definition is_ascii_digit :: "char \<Rightarrow> bool" where
  "is_ascii_digit c \<longleftrightarrow> (48::nat) \<le> of_char c \<and> of_char c \<le> (57::nat)"

definition is_ascii_letter :: "char \<Rightarrow> bool" where
  "is_ascii_letter c \<longleftrightarrow> is_ascii_upper c \<or> is_ascii_lower c"

definition py_upper_char :: "char \<Rightarrow> char" where
  "py_upper_char c = (if is_ascii_lower c then char_of (of_char c - (32::nat)) else c)"

definition py_lower_char :: "char \<Rightarrow> char" where
  "py_lower_char c = (if is_ascii_upper c then char_of (of_char c + (32::nat)) else c)"

text \<open>\<^verbatim>\<open>str.upper\<close> and \<^verbatim>\<open>str.lower\<close>.\<close>

definition py_upper :: "string \<Rightarrow> string" where
  "py_upper s = map py_upper_char s"

definition py_lower :: "string \<Rightarrow> string" where
  "py_lower s = map py_lower_char s"

text \<open>\<^verbatim>\<open>str.capitalize\<close>: the first character upper-cased, all others lower-cased.\<close>

fun py_capitalize :: "string \<Rightarrow> string" where
  "py_capitalize [] = []"
| "py_capitalize (c # cs) = py_upper_char c # py_lower cs"

text \<open>\<^verbatim>\<open>str.isidentifier\<close> on ASCII: a letter or underscore, then letters, digits
  and underscores.\<close>

definition is_id_start :: "char \<Rightarrow> bool" where
  "is_id_start c \<longleftrightarrow> is_ascii_letter c \<or> c = CHR ''_''"

definition is_id_continue :: "char \<Rightarrow> bool" where
  "is_id_continue c \<longleftrightarrow> is_ascii_letter c \<or> is_ascii_digit c \<or> c = CHR ''_''"

definition py_isidentifier :: "string \<Rightarrow> bool" where
  "py_isidentifier s \<longleftrightarrow>
     (case s of [] \<Rightarrow> False | c # cs \<Rightarrow> is_id_start c \<and> list_all is_id_continue cs)"

section \<open>Splitting, joining, indexing\<close>

text \<open>\<^verbatim>\<open>s.split(d)\<close> for a one-character separator: always at least one part, an
  empty part between adjacent separators and at either end.\<close>

fun py_split :: "char \<Rightarrow> string \<Rightarrow> string list" where
  "py_split d [] = [[]]"
| "py_split d (c # cs) =
     (if c = d then [] # py_split d cs
      else (case py_split d cs of [] \<Rightarrow> [[c]] | p # ps \<Rightarrow> (c # p) # ps))"

text \<open>\<^verbatim>\<open>sep.join(xs)\<close>.\<close>

fun py_join :: "string \<Rightarrow> string list \<Rightarrow> string" where
  "py_join sep [] = []"
| "py_join sep [x] = x"
| "py_join sep (x # y # zs) = x @ sep @ py_join sep (y # zs)"

text \<open>\<^verbatim>\<open>s[0]\<close>, which raises \<^verbatim>\<open>IndexError\<close> on the empty string.\<close>

definition py_index0 :: "string \<Rightarrow> char result" where
  "py_index0 s = (case s of [] \<Rightarrow> Inl IndexError | c # _ \<Rightarrow> Inr c)"

text \<open>A string in which none of the characters \<open>cs\<close> occurs, and a list of
  characters none of which is an ASCII letter.\<close>

definition avoids :: "char list \<Rightarrow> string \<Rightarrow> bool" where
  "avoids cs s \<longleftrightarrow> list_all (\<lambda>c. c \<notin> set s) cs"

text \<open>A string of ASCII characters only: the domain on which the case mappings and
  the identifier test above are Python's.\<close>

definition py_ascii :: "string \<Rightarrow> bool" where
  "py_ascii s \<longleftrightarrow> list_all (\<lambda>c. of_char c < (128::nat)) s"

definition nonletters :: "char list \<Rightarrow> bool" where
  "nonletters cs \<longleftrightarrow> list_all (\<lambda>c. \<not> is_ascii_letter c) cs"

section \<open>Generic lemmas\<close>

lemma char_of_eq_iff_take_bit [py_simps]:
  "char_of (n::nat) = c \<longleftrightarrow> take_bit 8 n = of_char c"
  by (rule char_of_eq_iff)

lemmas py_char_defs [py_simps] = is_ascii_upper_def is_ascii_lower_def is_ascii_digit_def
  is_ascii_letter_def py_upper_char_def py_lower_char_def is_id_start_def is_id_continue_def

lemma py_split_not_Nil [simp]: "py_split d s \<noteq> []"
  by (induction s) (auto split: list.splits)

lemma py_split_no_sep: "p \<in> set (py_split d s) \<Longrightarrow> d \<notin> set p"
proof (induction s arbitrary: p)
  case Nil
  then show ?case by simp
next
  case (Cons c cs)
  then show ?case by (auto split: if_splits list.splits)
qed

lemma py_split_sep_free: "d \<notin> set s \<Longrightarrow> py_split d s = [s]"
  by (induction s) auto

lemma py_join_split: "py_join [d] (py_split d s) = s"
proof (induction s)
  case Nil
  then show ?case by simp
next
  case (Cons c cs)
  show ?case
  proof (cases "py_split d cs")
    case Nil
    then show ?thesis by simp
  next
    case (Cons p ps)
    with Cons.IH show ?thesis by (cases ps) auto
  qed
qed

lemma py_join_Cons: "py_join sep (x # xs) = x @ (if xs = [] then [] else sep @ py_join sep xs)"
  by (cases xs) auto

lemma set_py_join: "set (py_join sep xs) \<subseteq> \<Union> (set ` set xs) \<union> set sep"
  by (induction sep xs rule: py_join.induct) auto

lemma count_py_join:
  "count_list (py_join sep xs) a =
     sum_list (map (\<lambda>x. count_list x a) xs) + (length xs - 1) * count_list sep a"
  by (induction sep xs rule: py_join.induct) auto

lemma length_py_upper [simp]: "length (py_upper s) = length s"
  by (simp add: py_upper_def)

lemma length_py_lower [simp]: "length (py_lower s) = length s"
  by (simp add: py_lower_def)

lemma length_py_capitalize [simp]: "length (py_capitalize s) = length s"
  by (cases s) auto

lemma py_upper_char_underscore [simp]: "py_upper_char CHR ''_'' = CHR ''_''"
  by (simp add: py_char_defs)

lemma py_lower_char_underscore [simp]: "py_lower_char CHR ''_'' = CHR ''_''"
  by (simp add: py_char_defs)

lemma py_lower_char_eq_underscore [simp]: "py_lower_char c = CHR ''_'' \<longleftrightarrow> c = CHR ''_''"
  by (auto simp add: py_char_defs char_of_eq_iff take_bit_eq_mod)

lemma py_upper_char_eq_underscore [simp]: "py_upper_char c = CHR ''_'' \<longleftrightarrow> c = CHR ''_''"
  by (auto simp add: py_char_defs char_of_eq_iff take_bit_eq_mod)

lemma underscore_eq_py_lower_char [simp]: "CHR ''_'' = py_lower_char c \<longleftrightarrow> c = CHR ''_''"
  by (metis py_lower_char_eq_underscore)

lemma underscore_eq_py_upper_char [simp]: "CHR ''_'' = py_upper_char c \<longleftrightarrow> c = CHR ''_''"
  by (metis py_upper_char_eq_underscore)

lemma py_split_append_sep: "d \<notin> set p \<Longrightarrow> py_split d (p @ d # r) = p # py_split d r"
  by (induction p) auto

lemma py_split_join: "\<forall>p\<in>set ps. d \<notin> set p \<Longrightarrow> ps \<noteq> [] \<Longrightarrow> py_split d (py_join [d] ps) = ps"
proof (induction "[d]" ps rule: py_join.induct)
  case (2 x)
  then show ?case by (simp add: py_split_sep_free)
next
  case (3 x y zs)
  then show ?case by (simp add: py_split_append_sep)
qed simp

lemma py_join_append:
  "py_join sep (xs @ ys) =
     (if xs = [] then py_join sep ys else if ys = [] then py_join sep xs
      else py_join sep xs @ sep @ py_join sep ys)"
  by (induction sep xs rule: py_join.induct) (auto simp add: py_join_Cons)

lemma py_join_inline:
  assumes "ys \<noteq> []"
  shows "py_join sep (xs @ py_join sep ys # zs) = py_join sep (xs @ ys @ zs)"
proof -
  have one: "py_join sep (py_join sep ys # zs) = py_join sep (ys @ zs)"
    using assms by (cases zs) (simp_all add: py_join_append)
  show ?thesis
    using assms by (simp add: py_join_append one)
qed

lemma py_join_flatten:
  "\<forall>ys \<in> set yss. ys \<noteq> [] \<Longrightarrow>
   py_join sep (xs @ map (py_join sep) yss @ zs) = py_join sep (xs @ concat yss @ zs)"
proof (induction yss arbitrary: xs)
  case Nil
  then show ?case by simp
next
  case (Cons ys yss)
  have "py_join sep (xs @ map (py_join sep) (ys # yss) @ zs) =
        py_join sep ((xs @ [py_join sep ys]) @ map (py_join sep) yss @ zs)" by simp
  also have "\<dots> = py_join sep ((xs @ [py_join sep ys]) @ concat yss @ zs)"
    using Cons by (intro Cons.IH) simp
  also have "\<dots> = py_join sep (xs @ ys @ concat yss @ zs)"
    using Cons.prems py_join_inline [of ys sep xs "concat yss @ zs"] by simp
  finally show ?case by simp
qed

lemma py_upper_char_nonletter: "\<not> is_ascii_letter x \<Longrightarrow> py_upper_char c = x \<longleftrightarrow> c = x"
  by (auto simp add: py_char_defs char_of_eq_iff take_bit_eq_mod)

lemma py_lower_char_nonletter: "\<not> is_ascii_letter x \<Longrightarrow> py_lower_char c = x \<longleftrightarrow> c = x"
  by (auto simp add: py_char_defs char_of_eq_iff take_bit_eq_mod)

lemma set_py_split: "p \<in> set (py_split d s) \<Longrightarrow> set p \<subseteq> set s"
proof (induction s arbitrary: p)
  case Nil
  then show ?case by simp
next
  case (Cons c cs)
  then show ?case by (fastforce split: if_splits list.splits)
qed

lemma py_lower_nonletter:
  assumes "\<not> is_ascii_letter x"
  shows "x \<in> set (py_lower s) \<longleftrightarrow> x \<in> set s"
proof -
  have eq: "\<And>c. x = py_lower_char c \<longleftrightarrow> c = x"
    using py_lower_char_nonletter [OF assms] by metis
  show ?thesis by (simp add: py_lower_def image_iff eq)
qed

lemma py_capitalize_nonletter:
  assumes "\<not> is_ascii_letter x"
  shows "x \<in> set (py_capitalize p) \<longleftrightarrow> x \<in> set p"
proof (cases p)
  case (Cons c cs)
  have eq: "x = py_upper_char c \<longleftrightarrow> c = x"
    using py_upper_char_nonletter [OF assms] by metis
  have "x \<in> set (py_capitalize p) \<longleftrightarrow> x = py_upper_char c \<or> x \<in> set (py_lower cs)"
    using Cons by simp
  also have "\<dots> \<longleftrightarrow> c = x \<or> x \<in> set cs"
    by (simp only: eq py_lower_nonletter [OF assms])
  also have "\<dots> \<longleftrightarrow> x \<in> set p"
    using Cons by auto
  finally show ?thesis .
qed simp

lemma avoids_Nil [simp]: "avoids cs []"
  by (simp add: avoids_def list_all_iff)

lemma avoids_Cons [simp]: "avoids cs (c # s) \<longleftrightarrow> c \<notin> set cs \<and> avoids cs s"
  by (auto simp add: avoids_def list_all_iff)

lemma avoids_append [simp]: "avoids cs (s @ t) \<longleftrightarrow> avoids cs s \<and> avoids cs t"
  by (auto simp add: avoids_def list_all_iff)

lemma avoids_iff: "avoids cs s \<longleftrightarrow> (\<forall>c \<in> set s. c \<notin> set cs)"
  by (auto simp add: avoids_def list_all_iff)

lemma count_list_avoids: "avoids cs s \<Longrightarrow> c \<in> set cs \<Longrightarrow> count_list s c = 0"
  by (auto simp add: avoids_iff count_list_0_iff)

lemma list_all_avoids_single:
  "list_all (avoids [c]) ls \<longleftrightarrow> (\<forall>l \<in> set ls. c \<notin> set l)"
  by (simp add: list_all_iff avoids_def)

lemma nonletters_letter: "nonletters cs \<Longrightarrow> is_ascii_letter c \<Longrightarrow> c \<notin> set cs"
  by (auto simp add: nonletters_def list_all_iff)

lemma nonletters_upper:
  assumes "nonletters cs" shows "py_upper_char c \<in> set cs \<longleftrightarrow> c \<in> set cs"
proof
  assume up: "py_upper_char c \<in> set cs"
  with assms have "\<not> is_ascii_letter (py_upper_char c)"
    by (auto simp add: nonletters_def list_all_iff)
  from py_upper_char_nonletter [OF this, of c] have "c = py_upper_char c" by simp
  with up show "c \<in> set cs" by simp
next
  assume c: "c \<in> set cs"
  with assms have "\<not> is_ascii_letter c"
    by (auto simp add: nonletters_def list_all_iff)
  from py_upper_char_nonletter [OF this, of c] have "py_upper_char c = c" by simp
  with c show "py_upper_char c \<in> set cs" by simp
qed

lemma count_list_sum_cong:
  "(\<And>x. x \<in> set xs \<Longrightarrow> count_list (f x) a = count_list (f x) b) \<Longrightarrow>
   sum_list (map (\<lambda>y. count_list y a) (map f xs)) =
   sum_list (map (\<lambda>y. count_list y b) (map f xs))"
  by (induction xs) auto


end
