(* ===== verification/Naming.thy ===== *)
theory Naming
  imports Prelude
begin

text \<open>
  The name sanitizer of \<^verbatim>\<open>src/json2apex.py\<close>: the reserved-word table
  \<^verbatim>\<open>APEX_KEYWORDS\<close> (lines 5--16), \<^verbatim>\<open>to_camel_case\<close> (18--20),
  \<^verbatim>\<open>is_apex_keyword\<close> (22--23), \<^verbatim>\<open>safe_field_name\<close> (25--29) and the
  class-name expression \<^verbatim>\<open>name[0].upper() + to_camel_case(name[1:])\<close> that the
  generator writes at lines 54, 63 and 68.
\<close>

definition APEX_KEYWORDS :: "string set" where
  "APEX_KEYWORDS = set [
    ''abstract'', ''activate'', ''and'', ''any'', ''array'', ''as'', ''asc'', ''autonomous'',
    ''begin'', ''bigdecimal'', ''blob'', ''boolean'', ''break'', ''bulk'', ''by'', ''byte'',
    ''case'', ''cast'', ''catch'', ''char'', ''class'', ''collect'', ''commit'', ''const'',
    ''continue'', ''convertcurrency'', ''date'', ''datetime'', ''decimal'', ''default'',
    ''delete'', ''desc'', ''do'', ''else'', ''end'', ''enum'', ''exception'', ''exit'',
    ''export'', ''extends'', ''false'', ''final'', ''finally'', ''float'', ''for'', ''from'',
    ''future'', ''global'', ''goto'', ''group'', ''having'', ''if'', ''implements'',
    ''import'', ''inner'', ''insert'', ''instanceof'', ''int'', ''interface'', ''into'',
    ''join'', ''like'', ''limit'', ''list'', ''long'', ''loop'', ''map'', ''merge'', ''new'',
    ''not'', ''null'', ''nulls'', ''number'', ''object'', ''of'', ''on'', ''or'', ''outer'',
    ''override'', ''package'', ''parallel'', ''pragma'', ''private'', ''protected'',
    ''public'', ''retrieve'', ''return'', ''rollback'', ''select'', ''set'', ''short'',
    ''static'', ''super'', ''switch'', ''synchronized'', ''system'', ''testmethod'', ''then'',
    ''this'', ''throw'', ''time'', ''transaction'', ''transient'', ''trigger'', ''true'',
    ''try'', ''undelete'', ''update'', ''upsert'', ''using'', ''virtual'', ''void'',
    ''webservice'', ''when'', ''where'', ''while'', ''with'', ''without'']"

text \<open>\<^verbatim>\<open>parts[0] + ''.join(word.capitalize() for word in parts[1:])\<close>;
  \<^verbatim>\<open>split\<close> never returns an empty list, so \<^verbatim>\<open>parts[0]\<close> exists.\<close>

definition to_camel_case :: "string \<Rightarrow> string" where
  "to_camel_case s =
     (case py_split CHR ''_'' s of
        [] \<Rightarrow> []
      | p # ps \<Rightarrow> p @ concat (map py_capitalize ps))"

definition is_apex_keyword :: "string \<Rightarrow> bool" where
  "is_apex_keyword w \<longleftrightarrow> py_lower w \<in> APEX_KEYWORDS"

definition safe_field_name :: "string \<Rightarrow> string" where
  "safe_field_name json_key =
     (let camel = to_camel_case json_key
      in if is_apex_keyword camel \<or> \<not> py_isidentifier camel then CHR ''_'' # camel else camel)"

text \<open>\<^verbatim>\<open>name[0].upper() + to_camel_case(name[1:])\<close>: \<^verbatim>\<open>IndexError\<close> on an
  empty name.\<close>

definition class_name_of :: "string \<Rightarrow> string result" where
  "class_name_of name =
     (case py_index0 name of
        Inl e \<Rightarrow> Inl e
      | Inr c \<Rightarrow> Inr (py_upper [c] @ to_camel_case (drop 1 name)))"

text \<open>A reference for \<open>to_camel_case\<close> that reads the key once, left to right, as a
  transducer with three states: in the first part (characters copied), at the start of a
  later part (the next character upper-cased), inside a later part (lower-cased). Each
  underscore is dropped and starts a new part. \<open>first_part\<close> says how the part
  under way is printed in each state.\<close>

datatype camel_state = FirstPart | PartStart | PartTail

fun camel_pass :: "camel_state \<Rightarrow> string \<Rightarrow> string" where
  "camel_pass st [] = []"
| "camel_pass st (c # cs) =
     (if c = CHR ''_'' then camel_pass PartStart cs
      else (case st of
              FirstPart \<Rightarrow> c # camel_pass FirstPart cs
            | PartStart \<Rightarrow> py_upper_char c # camel_pass PartTail cs
            | PartTail \<Rightarrow> py_lower_char c # camel_pass PartTail cs))"

fun first_part :: "camel_state \<Rightarrow> string \<Rightarrow> string" where
  "first_part FirstPart p = p"
| "first_part PartStart p = py_capitalize p"
| "first_part PartTail p = py_lower p"

section \<open>Lemmas\<close>

lemma to_camel_case_Cons:
  "c \<noteq> CHR ''_'' \<Longrightarrow> to_camel_case (c # cs) = c # to_camel_case cs"
  by (auto simp add: to_camel_case_def split: list.splits)

lemma underscore_not_in_py_capitalize:
  "CHR ''_'' \<notin> set p \<Longrightarrow> CHR ''_'' \<notin> set (py_capitalize p)"
  by (cases p) (auto simp add: py_lower_def)

lemma class_name_of_Cons [simp]:
  "class_name_of (c # cs) = Inr (py_upper_char c # to_camel_case cs)"
  by (simp add: class_name_of_def py_index0_def py_upper_def)

lemma class_name_of_Nil [simp]: "class_name_of [] = Inl IndexError"
  by (simp add: class_name_of_def py_index0_def)

lemma keywords_letters: "w \<in> APEX_KEYWORDS \<Longrightarrow> CHR ''_'' \<notin> set w"
  by (simp add: APEX_KEYWORDS_def) (elim disjE; simp)

lemma safe_field_name_cases:
  "safe_field_name k = to_camel_case k \<or> safe_field_name k = CHR ''_'' # to_camel_case k"
  by (simp add: safe_field_name_def Let_def)

text \<open>C11: A camel-cased name contains no underscore.\<close>

lemma to_camel_case_no_underscore: "CHR ''_'' \<notin> set (to_camel_case s)"
proof -
  obtain p ps where split: "py_split CHR ''_'' s = p # ps"
    by (cases "py_split CHR ''_'' s") auto
  then have "\<forall>q \<in> set (p # ps). CHR ''_'' \<notin> set q"
    by (metis py_split_no_sep)
  then show ?thesis
    by (auto simp add: to_camel_case_def split underscore_not_in_py_capitalize)
qed

text \<open>C5: A sanitized field name is never an Apex reserved word, in any letter case.\<close>

lemma safe_field_name_not_keyword: "\<not> is_apex_keyword (safe_field_name k)"
proof (cases "is_apex_keyword (to_camel_case k) \<or> \<not> py_isidentifier (to_camel_case k)")
  case True
  then have "safe_field_name k = CHR ''_'' # to_camel_case k"
    by (simp add: safe_field_name_def)
  then have "CHR ''_'' \<in> set (py_lower (safe_field_name k))"
    by (simp add: py_lower_def)
  then show ?thesis
    using keywords_letters by (auto simp add: is_apex_keyword_def)
next
  case False
  then show ?thesis by (simp add: safe_field_name_def)
qed

text \<open>C12: A sanitized field name is a legal identifier exactly when every character of the camel-cased key is an identifier character: the underscore prefix repairs a leading digit or an empty key, but not a symbol such as a hyphen.\<close>

lemma safe_field_name_identifier_iff:
  "py_isidentifier (safe_field_name k) \<longleftrightarrow> list_all is_id_continue (to_camel_case k)"
  by (cases "to_camel_case k")
     (auto simp add: safe_field_name_def Let_def py_isidentifier_def is_id_start_def
       is_id_continue_def split: if_splits)

lemma safe_field_name_hyphen_not_identifier:
  "\<not> py_isidentifier (safe_field_name ''first-name'')"
  by (simp add: safe_field_name_def to_camel_case_def is_apex_keyword_def APEX_KEYWORDS_def
       py_isidentifier_def py_lower_def py_simps)

lemma safe_field_name_class: "safe_field_name ''class'' = ''_class''"
  by (simp add: safe_field_name_def to_camel_case_def is_apex_keyword_def APEX_KEYWORDS_def
       py_isidentifier_def py_lower_def py_simps)

text \<open>camelCasing lower-cases every part after its first letter (Python capitalize), so user_ID becomes userId.\<close>

lemma to_camel_case_lowers_tail: "to_camel_case ''user_ID'' = ''userId''"
  by (simp add: to_camel_case_def py_lower_def py_simps)

text \<open>C13: The class name derived from a key that does not start with an underscore is the key's camelCase form with its first letter upper-cased.\<close>

lemma class_name_pascal:
  assumes "class_name_of k = Inr cn" and "hd k \<noteq> CHR ''_''"
  shows "cn = py_upper_char (hd (to_camel_case k)) # tl (to_camel_case k)"
proof (cases k)
  case Nil
  with assms show ?thesis by simp
next
  case (Cons c cs)
  with assms show ?thesis by (simp add: to_camel_case_Cons)
qed

lemma class_name_pascal_witness:
  "class_name_of ''zip_code'' = Inr ''ZipCode'' \<and> hd ''zip_code'' \<noteq> CHR ''_'' \<and>
   ''ZipCode'' = py_upper_char (hd (to_camel_case ''zip_code'')) # tl (to_camel_case ''zip_code'')"
proof -
  have cn: "class_name_of ''zip_code'' = Inr ''ZipCode''"
    by (simp add: to_camel_case_def py_lower_def py_simps)
  have hd: "hd ''zip_code'' \<noteq> CHR ''_''" by simp
  show ?thesis using class_name_pascal [OF cn hd] cn hd by simp
qed


text \<open>A key with a leading underscore: the class name keeps the underscore and the
  lower-case letter, while the field name drops the underscore.\<close>

lemma class_name_leading_underscore:
  "class_name_of ''_id'' = Inr ''_id'' \<and> safe_field_name ''_id'' = ''Id''"
  by (simp add: safe_field_name_def to_camel_case_def is_apex_keyword_def APEX_KEYWORDS_def
       py_isidentifier_def py_lower_def py_simps)

text \<open>Class names are not checked against the reserved words: the key \<open>list\<close>
  names a nested class \<open>List\<close>, a reserved word of Apex in any letter case.\<close>

lemma class_name_reserved:
  "class_name_of ''list'' = Inr ''List'' \<and> is_apex_keyword ''List''"
  by (simp add: to_camel_case_def is_apex_keyword_def APEX_KEYWORDS_def py_lower_def py_simps)

lemma to_camel_case_nonletter:
  assumes "\<not> is_ascii_letter x" and "x \<in> set (to_camel_case s)"
  shows "x \<in> set s"
proof -
  obtain p ps where split: "py_split CHR ''_'' s = p # ps"
    by (cases "py_split CHR ''_'' s") auto
  then have "\<forall>q \<in> set (p # ps). set q \<subseteq> set s"
    by (metis set_py_split)
  moreover from assms(2) split have "x \<in> set p \<or> (\<exists>q \<in> set ps. x \<in> set (py_capitalize q))"
    by (auto simp add: to_camel_case_def)
  ultimately show ?thesis using py_capitalize_nonletter [OF assms(1)] by auto
qed

lemma avoids_to_camel_case:
  assumes "nonletters cs" and "avoids cs s"
  shows "avoids cs (to_camel_case s)"
  unfolding avoids_iff
proof
  fix c assume "c \<in> set (to_camel_case s)"
  moreover have "c \<in> set cs \<Longrightarrow> \<not> is_ascii_letter c"
    using assms(1) by (auto simp add: nonletters_def list_all_iff)
  ultimately show "c \<notin> set cs"
    using assms(2) to_camel_case_nonletter by (auto simp add: avoids_iff)
qed

lemma avoids_safe_field_name:
  "nonletters cs \<Longrightarrow> CHR ''_'' \<notin> set cs \<Longrightarrow> avoids cs k \<Longrightarrow> avoids cs (safe_field_name k)"
  using safe_field_name_cases [of k] by (auto simp add: avoids_to_camel_case)

lemma avoids_class_name:
  "nonletters cs \<Longrightarrow> class_name_of k = Inr cn \<Longrightarrow> avoids cs k \<Longrightarrow> avoids cs cn"
  by (cases k) (auto simp add: avoids_to_camel_case nonletters_upper)

lemma camel_pass_split:
  "camel_pass st s =
     (case py_split CHR ''_'' s of [] \<Rightarrow> [] | p # ps \<Rightarrow> first_part st p @ concat (map py_capitalize ps))"
proof (induction s arbitrary: st)
  case Nil
  then show ?case by (cases st) (simp_all add: py_lower_def)
next
  case (Cons c cs)
  obtain p ps where sp: "py_split CHR ''_'' cs = p # ps"
    by (cases "py_split CHR ''_'' cs") auto
  show ?case
    using Cons.IH sp by (cases st) (auto simp add: py_lower_def)
qed

lemma to_camel_case_snake_pair:
  assumes "CHR ''_'' \<notin> set p" and "c \<noteq> CHR ''_''" and "CHR ''_'' \<notin> set q"
  shows "to_camel_case (p @ CHR ''_'' # c # q) = p @ py_upper_char c # py_lower q"
proof -
  have "py_split CHR ''_'' (p @ CHR ''_'' # c # q) = [p, c # q]"
    using assms by (simp add: py_split_append_sep py_split_sep_free)
  then show ?thesis by (simp add: to_camel_case_def)
qed

lemma py_lower_no_upper: "\<not> list_ex is_ascii_upper q \<Longrightarrow> py_lower q = q"
  by (induction q) (simp_all add: py_lower_def py_lower_char_def)

lemma to_camel_case_camel_pass: "to_camel_case s = camel_pass FirstPart s"
  by (simp add: camel_pass_split to_camel_case_def split: list.splits)

lemma length_camel_pass: "length (camel_pass st s) + count_list s CHR ''_'' = length s"
  by (induction s arbitrary: st) (auto split: camel_state.splits)

lemma py_lower_upper_char [simp]: "py_lower_char (py_upper_char c) = py_lower_char c"
  by (auto simp add: py_lower_char_def py_upper_char_def is_ascii_upper_def is_ascii_lower_def)

lemma py_lower_lower_char [simp]: "py_lower_char (py_lower_char c) = py_lower_char c"
  by (auto simp add: py_lower_char_def is_ascii_upper_def)

lemma lower_camel_pass:
  "map py_lower_char (camel_pass st s) = map py_lower_char (filter (\<lambda>c. c \<noteq> CHR ''_'') s)"
  by (induction s arbitrary: st) (auto split: camel_state.splits)

text \<open>C25: camelCase conversion as written (split at underscores, keep the first part,
  capitalize the others, concatenate) is equivalent to the one-pass transducer
  \<open>camel_pass\<close> started in the first part.\<close>

lemma to_camel_case_one_pass: "to_camel_case s = camel_pass FirstPart s"
  by (simp add: camel_pass_split to_camel_case_def split: list.splits)

text \<open>C26: For an ASCII key, camelCasing removes exactly the underscores of the key, so
  the camelCased name is as long as the key minus its underscores; the field name is at most
  one character longer than that (the prefixed underscore). Outside ASCII this fails in
  Python, whose case mappings can change the length (\<^verbatim>\<open>'\u00df'.capitalize()\<close> is
  \<^verbatim>\<open>'Ss'\<close>).\<close>

lemma safe_field_name_length:
  assumes "py_ascii k"
  shows "length (to_camel_case k) + count_list k CHR ''_'' = length k \<and>
   length (to_camel_case k) \<le> length (safe_field_name k) \<and>
   length (safe_field_name k) \<le> length (to_camel_case k) + 1"
  using length_camel_pass [of FirstPart k] safe_field_name_cases [of k]
  by (auto simp add: to_camel_case_camel_pass)

text \<open>C27: For an ASCII key, camelCasing only drops the underscores and changes the letter
  case: lower-casing the camelCased name gives the lower-cased key without its
  underscores.\<close>

lemma to_camel_case_case_only:
  assumes "py_ascii s"
  shows "py_lower (to_camel_case s) = py_lower (filter (\<lambda>c. c \<noteq> CHR ''_'') s)"
  by (simp add: to_camel_case_camel_pass py_lower_def lower_camel_pass)

text \<open>C15: Sanitizing is not injective, for field names and for class names alike: for every
  underscore-free prefix \<open>p\<close>, lower-case letter \<open>c\<close> and underscore-free tail
  \<open>q\<close> without upper-case letters, the distinct keys \<open>p_cq\<close> and \<open>pCq\<close> give the
  same field name and, when \<open>p\<close> is non-empty, the same nested class name.\<close>

lemma safe_field_name_collision:
  assumes "CHR ''_'' \<notin> set p" and "is_ascii_lower c" and "CHR ''_'' \<notin> set q"
    and "\<not> list_ex is_ascii_upper q"
  shows "p @ CHR ''_'' # c # q \<noteq> p @ py_upper_char c # q \<and>
    safe_field_name (p @ CHR ''_'' # c # q) = safe_field_name (p @ py_upper_char c # q) \<and>
    (p \<noteq> [] \<longrightarrow> class_name_of (p @ CHR ''_'' # c # q) = class_name_of (p @ py_upper_char c # q))"
proof -
  have c: "c \<noteq> CHR ''_''" using assms(2) by (auto simp add: is_ascii_lower_def)
  then have u: "py_upper_char c \<noteq> CHR ''_''" by simp
  have lq: "py_lower q = q" using assms(4) by (rule py_lower_no_upper)
  have free: "\<And>r. CHR ''_'' \<notin> set r \<Longrightarrow> to_camel_case (r @ py_upper_char c # q) = r @ py_upper_char c # q"
    using u assms(3) by (simp add: to_camel_case_def py_split_sep_free)
  have camel: "\<And>r. CHR ''_'' \<notin> set r \<Longrightarrow>
      to_camel_case (r @ CHR ''_'' # c # q) = to_camel_case (r @ py_upper_char c # q)"
    using to_camel_case_snake_pair [OF _ c assms(3)] free lq by simp
  have "safe_field_name (p @ CHR ''_'' # c # q) = safe_field_name (p @ py_upper_char c # q)"
    using camel [OF assms(1)] by (simp add: safe_field_name_def)
  moreover have "p \<noteq> [] \<longrightarrow> class_name_of (p @ CHR ''_'' # c # q) = class_name_of (p @ py_upper_char c # q)"
  proof
    assume "p \<noteq> []"
    then obtain h t where p: "p = h # t" by (cases p) auto
    with assms(1) camel [of t] show "class_name_of (p @ CHR ''_'' # c # q) =
        class_name_of (p @ py_upper_char c # q)" by simp
  qed
  ultimately show ?thesis using u by simp
qed

lemma safe_field_name_collision_witness:
  "CHR ''_'' \<notin> set ''a'' \<and> is_ascii_lower CHR ''b'' \<and> CHR ''_'' \<notin> set [] \<and>
   \<not> list_ex is_ascii_upper [] \<and>
   ''a_b'' \<noteq> ''aB'' \<and> safe_field_name ''a_b'' = safe_field_name ''aB'' \<and>
   class_name_of ''a_b'' = class_name_of ''aB''"
proof -
  have h: "CHR ''_'' \<notin> set ''a''" "is_ascii_lower CHR ''b''" "CHR ''_'' \<notin> set []"
    "\<not> list_ex is_ascii_upper []" by (simp_all add: is_ascii_lower_def)
  have up: "py_upper_char CHR ''b'' = CHR ''B''" by code_simp
  from safe_field_name_collision [OF h] h up show ?thesis by simp
qed

lemma safe_field_name_length_witness:
  "py_ascii ''user_id'' \<and> length (to_camel_case ''user_id'') + count_list ''user_id'' CHR ''_'' = length ''user_id''"
proof -
  have a: "py_ascii ''user_id''" by (simp add: py_ascii_def)
  from safe_field_name_length [OF a] a show ?thesis by simp
qed

lemma to_camel_case_case_only_witness:
  "py_ascii ''user_ID'' \<and>
   py_lower (to_camel_case ''user_ID'') = py_lower (filter (\<lambda>c. c \<noteq> CHR ''_'') ''user_ID'')"
proof -
  have a: "py_ascii ''user_ID''" by (simp add: py_ascii_def)
  from to_camel_case_case_only [OF a] a show ?thesis by simp
qed

end
