(* ===== verification/Json.thy ===== *)
theory Json
  imports Prelude
begin

text \<open>
  The JSON value tree that \<^verbatim>\<open>json.loads\<close> hands to the program, and Python's
  \<^verbatim>\<open>isinstance\<close> tests on it as \<^verbatim>\<open>src/json2apex.py\<close> uses them. A JSON
  object is a Python \<^verbatim>\<open>dict\<close>, iterated by \<^verbatim>\<open>items()\<close> in insertion order:
  it is the association list of its items. A JSON number with a fraction or exponent is
  a Python \<^verbatim>\<open>float\<close>; the program never reads its value, so the model keeps the
  literal as a mantissa and a decimal exponent. In Python \<^verbatim>\<open>bool\<close> is a subclass
  of \<^verbatim>\<open>int\<close>, so \<^verbatim>\<open>isinstance(True, int)\<close> holds: \<open>py_is_int\<close> says so.
\<close>

datatype json =
    JNull
  | JBool bool
  | JInt int
  | JFloat int int
  | JStr string
  | JList "json list"
  | JObj "(string \<times> json) list"

section \<open>\<^verbatim>\<open>isinstance\<close>\<close>

fun py_is_str :: "json \<Rightarrow> bool" where
  "py_is_str (JStr _) = True"
| "py_is_str _ = False"

fun py_is_bool :: "json \<Rightarrow> bool" where
  "py_is_bool (JBool _) = True"
| "py_is_bool _ = False"

fun py_is_int :: "json \<Rightarrow> bool" where
  "py_is_int (JInt _) = True"
| "py_is_int (JBool _) = True"
| "py_is_int _ = False"

fun py_is_float :: "json \<Rightarrow> bool" where
  "py_is_float (JFloat _ _) = True"
| "py_is_float _ = False"

fun py_is_list :: "json \<Rightarrow> bool" where
  "py_is_list (JList _) = True"
| "py_is_list _ = False"

fun py_is_dict :: "json \<Rightarrow> bool" where
  "py_is_dict (JObj _) = True"
| "py_is_dict _ = False"

text \<open>
  A value the generator turns into a nested class: an object, or a non-empty array
  whose first element is an object (the condition of lines 62 and 67 of the source).
\<close>

fun object_shaped :: "json \<Rightarrow> bool" where
  "object_shaped (JObj _) = True"
| "object_shaped (JList (JObj _ # _)) = True"
| "object_shaped _ = False"

text \<open>
  The parser's contract: the keys of every object are distinct (\<^verbatim>\<open>json.loads\<close>
  keeps one entry per key).
\<close>

fun json_wf :: "json \<Rightarrow> bool" where
  "json_wf (JList vs) = list_all json_wf vs"
| "json_wf (JObj kvs) = (distinct (map fst kvs) \<and> list_all (\<lambda>kv. json_wf (snd kv)) kvs)"
| "json_wf _ = True"

text \<open>The object a nested class is generated from: the value itself, or the first
  element of the array (\<^verbatim>\<open>value[0]\<close>, line 70).\<close>

fun nested_items :: "json \<Rightarrow> (string \<times> json) list" where
  "nested_items (JObj d) = d"
| "nested_items (JList (JObj d # _)) = d"
| "nested_items _ = []"

text \<open>Every key of the document, at any depth.\<close>

fun json_keys :: "json \<Rightarrow> string list" where
  "json_keys (JList vs) = concat (map json_keys vs)"
| "json_keys (JObj kvs) = concat (map (\<lambda>kv. fst kv # json_keys (snd kv)) kvs)"
| "json_keys _ = []"

lemma size_JObj_item_less [simp]: "(k, v) \<in> set kvs \<Longrightarrow> size v < size (JObj kvs)"
  by (induction kvs) auto

lemma object_shaped_iff:
  "object_shaped v \<longleftrightarrow> py_is_dict v \<or> (\<exists>kvs vs. v = JList (JObj kvs # vs))"
  by (cases v rule: object_shaped.cases) auto

lemma size_nested_items_less:
  "object_shaped v \<Longrightarrow> (k, v) \<in> set kvs \<Longrightarrow> size (JObj (nested_items v)) < size (JObj kvs)"
proof (cases v rule: object_shaped.cases)
  case (2 d vs)
  assume "(k, v) \<in> set kvs"
  then have "size v < size (JObj kvs)" by (rule size_JObj_item_less)
  with 2 show ?thesis by simp
qed (auto dest: size_JObj_item_less)

text \<open>
  Induction over the items of an object that also descends into the object each
  object-shaped value leads to: the recursion scheme of the generator.
\<close>

lemma items_induct [case_names Nil Cons]:
  assumes Nil: "P []"
    and Cons: "\<And>k v items. (object_shaped v \<Longrightarrow> P (nested_items v)) \<Longrightarrow> P items \<Longrightarrow>
      P ((k, v) # items)"
  shows "P items"
proof (induction "size (JObj items)" arbitrary: items rule: less_induct)
  case less
  show ?case
  proof (cases items)
    case Nil
    then show ?thesis using assms(1) by simp
  next
    case (Cons kv rest)
    obtain k v where kv: "kv = (k, v)" by (cases kv)
    have "object_shaped v \<Longrightarrow> P (nested_items v)"
      using less size_nested_items_less [of v k items] Cons kv by simp
    moreover have "P rest" using less Cons by simp
    ultimately show ?thesis using assms(2) Cons kv by simp
  qed
qed

lemma json_keys_Cons [simp]:
  "json_keys (JObj ((k, v) # items)) = k # json_keys v @ json_keys (JObj items)"
  by simp

lemma json_keys_nested_items:
  "object_shaped v \<Longrightarrow> set (json_keys (JObj (nested_items v))) \<subseteq> set (json_keys v)"
  by (cases v rule: object_shaped.cases) auto


end
