(* ===== verification/TypeInfer.thy ===== *)
theory TypeInfer
  imports Json
begin

text \<open>
  The type inferrer \<^verbatim>\<open>infer_apex_type\<close> of \<^verbatim>\<open>src/json2apex.py\<close>
  (lines 31--48), with its \<^verbatim>\<open>isinstance\<close> chain in the source's order, and an
  abstract view of what it promises: a datatype \<open>apex_type\<close> of the Apex type
  expressions it can produce, the classification \<open>type_of_json\<close> that section 4.2 of
  the specification states rule by rule, the printer \<open>render_type\<close> and a parser
  \<open>parse_type\<close> for the printed form.
\<close>

fun infer_apex_type :: "json \<Rightarrow> string" where
  "infer_apex_type v =
     (if py_is_str v then ''String''
      else if py_is_bool v then ''Boolean''
      else if py_is_int v then ''Integer''
      else if py_is_float v then ''Decimal''
      else if py_is_list v then
        (case v of
           JList (x # _) \<Rightarrow> ''List<'' @ infer_apex_type x @ ''>''
         | _ \<Rightarrow> ''List<Object>'')
      else if py_is_dict v then ''Object''
      else ''Object'')"

text \<open>The abstract type expressions and the specification's classification.\<close>

datatype apex_type = TString | TBoolean | TInteger | TDecimal | TList apex_type | TObject

fun render_type :: "apex_type \<Rightarrow> string" where
  "render_type TString = ''String''"
| "render_type TBoolean = ''Boolean''"
| "render_type TInteger = ''Integer''"
| "render_type TDecimal = ''Decimal''"
| "render_type (TList t) = ''List<'' @ render_type t @ ''>''"
| "render_type TObject = ''Object''"

fun type_of_json :: "json \<Rightarrow> apex_type" where
  "type_of_json (JStr _) = TString"
| "type_of_json (JBool _) = TBoolean"
| "type_of_json (JInt _) = TInteger"
| "type_of_json (JFloat _ _) = TDecimal"
| "type_of_json (JList []) = TList TObject"
| "type_of_json (JList (x # _)) = TList (type_of_json x)"
| "type_of_json (JObj _) = TObject"
| "type_of_json JNull = TObject"

function parse_type :: "string \<Rightarrow> apex_type option" where
  "parse_type s =
     (if s = ''String'' then Some TString
      else if s = ''Boolean'' then Some TBoolean
      else if s = ''Integer'' then Some TInteger
      else if s = ''Decimal'' then Some TDecimal
      else if s = ''Object'' then Some TObject
      else if take 5 s = ''List<'' \<and> 6 \<le> length s \<and> last s = CHR ''>''
        then map_option TList (parse_type (butlast (drop 5 s)))
      else None)"
  by pat_completeness auto
termination
  by (relation "measure length") auto

declare parse_type.simps [simp del] infer_apex_type.simps [simp del]

lemma infer_apex_type_JList_Cons:
  "infer_apex_type (JList (x # xs)) = ''List<'' @ infer_apex_type x @ ''>''"
  by (subst infer_apex_type.simps) simp

lemma infer_apex_type_render: "infer_apex_type v = render_type (type_of_json v)"
proof (induction v rule: type_of_json.induct)
  case (6 x xs)
  then show ?case by (simp add: infer_apex_type_JList_Cons)
qed (simp_all add: infer_apex_type.simps)

text \<open>C4: The inferrer, with its isinstance chain in the source's order, computes exactly the printed form of the specification's rule-by-rule classification, arrays typed by their first element.\<close>

lemma infer_refines_type_of_json: "infer_apex_type v = render_type (type_of_json v)"
  by (rule infer_apex_type_render)

lemma parse_render_type: "parse_type (render_type t) = Some t"
proof (induction t)
  case (TList t)
  have "parse_type (render_type (TList t)) = map_option TList (parse_type (render_type t))"
    by (subst parse_type.simps) simp
  with TList.IH show ?case by simp
qed (subst parse_type.simps; simp)+

text \<open>C3: Scalars get the type of their kind: strings String, booleans Boolean (never Integer, although a Python bool is an int), integers Integer, floats Decimal.\<close>

lemma infer_apex_type_scalars:
  "infer_apex_type (JStr s) = ''String'' \<and> infer_apex_type (JBool b) = ''Boolean'' \<and>
   infer_apex_type (JInt i) = ''Integer'' \<and> infer_apex_type (JFloat m e) = ''Decimal''"
  by (simp add: infer_apex_type.simps)

lemma avoids_render_type: "nonletters cs \<Longrightarrow> avoids cs ''<>'' \<Longrightarrow> avoids cs (render_type t)"
  by (induction t) (simp_all add: nonletters_letter py_char_defs)

lemma avoids_infer_apex_type:
  "nonletters cs \<Longrightarrow> avoids cs ''<>'' \<Longrightarrow> avoids cs (infer_apex_type v)"
  by (simp add: infer_apex_type_render avoids_render_type)


end
