(* ===== verification/ClassTree.thy ===== *)
theory ClassTree
  imports Naming TypeInfer
begin

text \<open>
  The pieces of text \<^verbatim>\<open>generate_apex_class\<close> of \<^verbatim>\<open>src/json2apex.py\<close>
  (lines 50--88) assembles, and the structured view of its output that the
  specification's design notes ask for: a field descriptor record, a class declaration
  tree built by \<open>build_class\<close> with the same recursion and the same
  \<^verbatim>\<open>IndexError\<close> branches as the generator, and a renderer \<open>render_class\<close>
  (with \<open>render_lines\<close>, the same rendering before the lines are joined). The
  lemmas here are about the tree: which declarations are marked root, which characters
  its texts avoid, the balance of curly braces, and the indentation of every rendered line.
\<close>

abbreviation newline :: string where
  "newline \<equiv> [CHR 0x0A]"

abbreviation dquote :: char where
  "dquote \<equiv> CHR 0x22"

definition indent_str :: "nat \<Rightarrow> string" where
  "indent_str indent = concat (replicate indent ''    '')"

definition rename_comment :: "string \<Rightarrow> string \<Rightarrow> string" where
  "rename_comment key field_name =
     (if field_name \<noteq> to_camel_case key
      then '' // '' @ [dquote] @ key @ [dquote] @ '' -> '' @ field_name else [])"

definition field_line :: "nat \<Rightarrow> string \<Rightarrow> string \<Rightarrow> string \<Rightarrow> string" where
  "field_line indent t field_name comment =
     indent_str indent @ ''    public '' @ t @ '' '' @ field_name @ '';'' @ comment"

definition root_helpers :: "string \<Rightarrow> string \<Rightarrow> string list" where
  "root_helpers istr class_name =
     [[],
      istr @ ''    public static '' @ class_name @ '' fromJSON(String json) {'',
      istr @ ''        return ('' @ class_name @ '') JSON.deserialize(json, '' @ class_name @ ''.class);'',
      istr @ ''    }'',
      [],
      istr @ ''    public String toJSON() {'',
      istr @ ''        return JSON.serialize(this);'',
      istr @ ''    }'']"

text \<open>The structured view: field descriptors and class declarations.\<close>

record field_desc =
  fd_key :: string
  fd_name :: string
  fd_type :: string
  fd_comment :: string

datatype class_decl =
  ClassDecl (cd_name: string) (cd_fields: "field_desc list") (cd_root: bool)
    (cd_nested: "class_decl list")

definition make_field :: "string \<Rightarrow> string \<Rightarrow> field_desc" where
  "make_field key t =
     (let field_name = safe_field_name key
      in \<lparr>fd_key = key, fd_name = field_name, fd_type = t,
          fd_comment = rename_comment key field_name\<rparr>)"

fun build_class :: "string \<Rightarrow> (string \<times> json) list \<Rightarrow> bool \<Rightarrow> class_decl result"
and build_fields :: "(string \<times> json) list \<Rightarrow> (field_desc list \<times> class_decl list) result"
and build_item :: "string \<Rightarrow> json \<Rightarrow> (field_desc \<times> class_decl list) result" where
  "build_class name d is_root =
     (case class_name_of name of
        Inl e \<Rightarrow> Inl e
      | Inr cn \<Rightarrow>
          (case build_fields d of
             Inl e \<Rightarrow> Inl e
           | Inr (fs, ns) \<Rightarrow> Inr (ClassDecl cn fs is_root ns)))"
| "build_fields [] = Inr ([], [])"
| "build_fields ((key, value) # items) =
     (case build_item key value of
        Inl e \<Rightarrow> Inl e
      | Inr (f, n) \<Rightarrow>
          (case build_fields items of
             Inl e \<Rightarrow> Inl e
           | Inr (fs, ns) \<Rightarrow> Inr (f # fs, n @ ns)))"
| "build_item key value =
     (case value of
        JObj d \<Rightarrow>
          (case class_name_of key of
             Inl e \<Rightarrow> Inl e
           | Inr ncn \<Rightarrow>
               (case build_class key d False of
                  Inl e \<Rightarrow> Inl e
                | Inr c \<Rightarrow> Inr (make_field key ncn, [c])))
      | JList (JObj d # _) \<Rightarrow>
          (case class_name_of key of
             Inl e \<Rightarrow> Inl e
           | Inr ncn \<Rightarrow>
               (case build_class key d False of
                  Inl e \<Rightarrow> Inl e
                | Inr c \<Rightarrow> Inr (make_field key (''List<'' @ ncn @ ''>''), [c])))
      | _ \<Rightarrow> Inr (make_field key (infer_apex_type value), []))"

definition render_field :: "nat \<Rightarrow> field_desc \<Rightarrow> string" where
  "render_field indent f =
     field_line indent (fd_type f) (fd_name f) (fd_comment f)"

fun render_class :: "nat \<Rightarrow> class_decl \<Rightarrow> string" where
  "render_class indent (ClassDecl cn fs is_root ns) =
     py_join newline
       ([indent_str indent @ ''public class '' @ cn @ '' {''] @ map (render_field indent) fs @
        (if is_root then root_helpers (indent_str indent) cn else []) @
        map (render_class (Suc indent)) ns @ [indent_str indent @ ''}''])"

fun render_lines :: "nat \<Rightarrow> class_decl \<Rightarrow> string list" where
  "render_lines i (ClassDecl cn fs r ns) =
     [indent_str i @ ''public class '' @ cn @ '' {''] @ map (render_field i) fs @
     (if r then root_helpers (indent_str i) cn else []) @
     concat (map (render_lines (Suc i)) ns) @ [indent_str i @ ''}'']"

text \<open>The declared type of a field whose value becomes a nested class.\<close>

definition ref_type :: "json \<Rightarrow> string \<Rightarrow> string" where
  "ref_type v ncn = (case v of JObj _ \<Rightarrow> ncn | _ \<Rightarrow> ''List<'' @ ncn @ ''>'')"

text \<open>All declarations of a class tree, outermost first.\<close>

fun all_decls :: "class_decl \<Rightarrow> class_decl list" where
  "all_decls (ClassDecl cn fs r ns) = ClassDecl cn fs r ns # concat (map all_decls ns)"

text \<open>A class tree whose names and field texts avoid the characters \<open>cs\<close>.\<close>

fun decl_avoids :: "char list \<Rightarrow> class_decl \<Rightarrow> bool" where
  "decl_avoids cs (ClassDecl cn fs r ns) \<longleftrightarrow>
     avoids cs cn \<and>
     list_all (\<lambda>f. avoids cs (fd_type f) \<and> avoids cs (fd_name f) \<and> avoids cs (fd_comment f)) fs \<and>
     list_all (decl_avoids cs) ns"

text \<open>A field's declared type resolves when it is an Apex type expression or names one of
  the classes nested in the declaring class (directly, or as the element type of a list).
  A class tree is well typed when every field of every class resolves.\<close>

definition field_resolves :: "class_decl list \<Rightarrow> field_desc \<Rightarrow> bool" where
  "field_resolves ns f \<longleftrightarrow>
     parse_type (fd_type f) \<noteq> None \<or>
     list_ex (\<lambda>n. fd_type f = cd_name n \<or> fd_type f = ''List<'' @ cd_name n @ ''>'') ns"

fun decl_typed :: "class_decl \<Rightarrow> bool" where
  "decl_typed (ClassDecl cn fs r ns) \<longleftrightarrow> list_all (field_resolves ns) fs \<and> list_all decl_typed ns"

lemma build_item_plain:
  "\<not> object_shaped v \<Longrightarrow> build_item key v = Inr (make_field key (infer_apex_type v), [])"
  by (cases v rule: object_shaped.cases) simp_all

lemma build_item_eq:
  "build_item key v =
     (if object_shaped v then
        (case class_name_of key of
           Inl e \<Rightarrow> Inl e
         | Inr ncn \<Rightarrow>
             (case build_class key (nested_items v) False of
                Inl e \<Rightarrow> Inl e
              | Inr c \<Rightarrow> Inr (make_field key (ref_type v ncn), [c])))
      else Inr (make_field key (infer_apex_type v), []))"
  by (cases v rule: object_shaped.cases) (auto simp add: ref_type_def split: sum.splits)

declare build_item.simps [simp del]

lemma build_fields_no_root:
  "build_fields d = Inr (fs, ns) \<Longrightarrow> filter cd_root (concat (map all_decls ns)) = []"
proof (induction d arbitrary: fs ns rule: items_induct)
  case Nil
  then show ?case by simp
next
  case (Cons k v items)
  then show ?case
    by (auto simp add: build_item_eq split: if_splits sum.splits)
qed

lemma build_class_root_flags:
  "build_class name d True = Inr c \<Longrightarrow> filter cd_root (all_decls c) = [c]"
  by (auto simp add: build_fields_no_root split: sum.splits)

lemma avoids_rename_comment:
  "nonletters cs \<Longrightarrow> avoids cs (''_ /->'' @ [dquote]) \<Longrightarrow> avoids cs k \<Longrightarrow>
   avoids cs (rename_comment k (safe_field_name k))"
  by (simp add: rename_comment_def avoids_safe_field_name)

lemma avoids_indent_str: "CHR '' '' \<notin> set cs \<Longrightarrow> avoids cs (indent_str i)"
  by (induction i) (simp_all add: indent_str_def)

lemma count_render_field:
  assumes "avoids ''{}'' (fd_type f)" "avoids ''{}'' (fd_name f)" "avoids ''{}'' (fd_comment f)"
  shows "count_list (render_field i f) CHR ''{'' = 0 \<and> count_list (render_field i f) CHR ''}'' = 0"
proof -
  have "avoids ''{}'' (render_field i f)"
    using assms by (simp add: render_field_def field_line_def avoids_indent_str)
  then show ?thesis by (simp add: count_list_avoids)
qed

lemma count_root_helpers:
  assumes "avoids ''{}'' cn"
  shows "sum_list (map (\<lambda>x. count_list x CHR ''{'') (root_helpers (indent_str i) cn)) = 2 \<and>
         sum_list (map (\<lambda>x. count_list x CHR ''}'') (root_helpers (indent_str i) cn)) = 2"
proof -
  have "avoids ''{}'' (indent_str i)" by (simp add: avoids_indent_str)
  with assms show ?thesis by (simp add: root_helpers_def count_list_avoids)
qed

lemma render_class_braces:
  "decl_avoids ''{}'' c \<Longrightarrow>
   count_list (render_class i c) CHR ''{'' = count_list (render_class i c) CHR ''}''"
proof (induction i c rule: render_class.induct)
  case (1 i cn fs r ns)
  have cn: "avoids ''{}'' cn" and fs: "\<forall>f \<in> set fs. avoids ''{}'' (fd_type f) \<and>
      avoids ''{}'' (fd_name f) \<and> avoids ''{}'' (fd_comment f)"
    and ns: "\<forall>n \<in> set ns. decl_avoids ''{}'' n"
    using "1.prems" by (simp_all add: list_all_iff)
  define cnt :: "char \<Rightarrow> string list \<Rightarrow> nat" where "cnt c xs = sum_list (map (\<lambda>x. count_list x c) xs)" for c xs
  have cnt_app: "\<And>c xs ys. cnt c (xs @ ys) = cnt c xs + cnt c ys"
    by (simp add: cnt_def)
  have render: "\<And>c. count_list (render_class i (ClassDecl cn fs r ns)) c =
      cnt c ([indent_str i @ ''public class '' @ cn @ '' {'']) + cnt c (map (render_field i) fs) +
      cnt c (if r then root_helpers (indent_str i) cn else []) +
      cnt c (map (render_class (Suc i)) ns) + cnt c [indent_str i @ ''}''] +
      (length ([indent_str i @ ''public class '' @ cn @ '' {''] @ map (render_field i) fs @
        (if r then root_helpers (indent_str i) cn else []) @ map (render_class (Suc i)) ns @
        [indent_str i @ ''}'']) - 1) * count_list newline c"
    by (simp only: render_class.simps count_py_join cnt_def [symmetric] cnt_app)
  have hdr: "cnt CHR ''{'' [indent_str i @ ''public class '' @ cn @ '' {''] =
      cnt CHR ''}'' [indent_str i @ ''}'']"
    and close: "cnt CHR ''}'' [indent_str i @ ''public class '' @ cn @ '' {''] =
      cnt CHR ''{'' [indent_str i @ ''}'']"
    using cn avoids_indent_str [of "''{}''" i] by (simp_all add: cnt_def count_list_avoids)
  have flds: "cnt CHR ''{'' (map (render_field i) fs) = cnt CHR ''}'' (map (render_field i) fs)"
    using fs count_render_field unfolding cnt_def
    by (intro count_list_sum_cong [of fs "render_field i"]) auto
  have helpers: "cnt CHR ''{'' (if r then root_helpers (indent_str i) cn else []) =
      cnt CHR ''}'' (if r then root_helpers (indent_str i) cn else [])"
    using count_root_helpers [OF cn, of i] by (simp add: cnt_def)
  have nested: "cnt CHR ''{'' (map (render_class (Suc i)) ns) =
      cnt CHR ''}'' (map (render_class (Suc i)) ns)"
    using "1.IH" ns unfolding cnt_def by (intro count_list_sum_cong [of ns "render_class (Suc i)"]) auto
  show ?case
    by (simp only: render hdr close flds helpers nested) simp
qed

lemma avoids_make_field:
  "nonletters cs \<Longrightarrow> avoids cs (''_ /->'' @ [dquote]) \<Longrightarrow> avoids cs k \<Longrightarrow> avoids cs t \<Longrightarrow>
   avoids cs (fd_type (make_field k t)) \<and> avoids cs (fd_name (make_field k t)) \<and>
   avoids cs (fd_comment (make_field k t))"
  by (simp add: make_field_def Let_def avoids_safe_field_name avoids_rename_comment)

lemma build_fields_avoids:
  assumes cs: "nonletters cs" "avoids cs (''_ /-><'' @ [dquote])"
  shows "build_fields d = Inr (fs, ns) \<Longrightarrow> list_all (avoids cs) (json_keys (JObj d)) \<Longrightarrow>
   list_all (\<lambda>f. avoids cs (fd_type f) \<and> avoids cs (fd_name f) \<and> avoids cs (fd_comment f)) fs \<and>
   list_all (decl_avoids cs) ns"
proof (induction d arbitrary: fs ns rule: items_induct)
  case Nil
  then show ?case by simp
next
  case (Cons k v items)
  from Cons.prems(1) obtain f n fs' ns' where
    item: "build_item k v = Inr (f, n)" and rest: "build_fields items = Inr (fs', ns')"
    and fs: "fs = f # fs'" and ns: "ns = n @ ns'"
    by (auto split: sum.splits)
  have k: "avoids cs k" and kv: "list_all (avoids cs) (json_keys v)"
    and ki: "list_all (avoids cs) (json_keys (JObj items))"
    using Cons.prems(2) by auto
  have cs': "avoids cs (''_ /->'' @ [dquote])" using cs(2) by simp
  from Cons.IH(2) [OF rest ki] have IHr: "list_all (\<lambda>f. avoids cs (fd_type f) \<and>
      avoids cs (fd_name f) \<and> avoids cs (fd_comment f)) fs' \<and> list_all (decl_avoids cs) ns'" .
  show ?case
  proof (cases "object_shaped v")
    case True
    with item obtain ncn c fs'' ns'' where cn: "class_name_of k = Inr ncn"
      and nested: "build_fields (nested_items v) = Inr (fs'', ns'')"
      and c: "c = ClassDecl ncn fs'' False ns''"
      and f: "f = make_field k (ref_type v ncn)" and n: "n = [c]"
      by (auto simp add: build_item_eq split: sum.splits)
    have "list_all (avoids cs) (json_keys (JObj (nested_items v)))"
      using kv json_keys_nested_items [OF True] by (auto simp add: list_all_iff)
    from Cons.IH(1) [OF True nested this] have "decl_avoids cs c"
      using c avoids_class_name [OF cs(1) cn k] by simp
    moreover have "avoids cs (ref_type v ncn)"
      using avoids_class_name [OF cs(1) cn k] cs(1,2)
      by (simp add: ref_type_def nonletters_letter py_char_defs split: json.splits)
    ultimately show ?thesis
      using IHr fs ns f n avoids_make_field [OF cs(1) cs' k] by simp
  next
    case False
    with item have "f = make_field k (infer_apex_type v)" and "n = []"
      by (simp_all add: build_item_eq)
    moreover have "avoids cs (infer_apex_type v)"
      using cs by (intro avoids_infer_apex_type) simp_all
    ultimately show ?thesis
      using IHr fs ns avoids_make_field [OF cs(1) cs' k] by simp
  qed
qed

lemma render_lines_not_Nil [simp]: "render_lines i c \<noteq> []"
  by (cases c) simp

lemma render_class_lines: "render_class i c = py_join newline (render_lines i c)"
proof (induction i c rule: render_class.induct)
  case (1 i cn fs r ns)
  define A where "A = [indent_str i @ ''public class '' @ cn @ '' {''] @ map (render_field i) fs @
    (if r then root_helpers (indent_str i) cn else [])"
  define B where "B = [indent_str i @ ''}'']"
  have eq: "map (render_class (Suc i)) ns = map (py_join newline) (map (render_lines (Suc i)) ns)"
    using "1.IH" by simp
  have "render_class i (ClassDecl cn fs r ns) = py_join newline (A @ map (render_class (Suc i)) ns @ B)"
    by (simp only: render_class.simps A_def B_def append_assoc)
  also have "\<dots> = py_join newline (A @ concat (map (render_lines (Suc i)) ns) @ B)"
  proof -
    have "\<forall>ys \<in> set (map (render_lines (Suc i)) ns). ys \<noteq> []" by simp
    then show ?thesis by (simp only: eq py_join_flatten)
  qed
  also have "\<dots> = py_join newline (render_lines i (ClassDecl cn fs r ns))"
    by (simp only: render_lines.simps A_def B_def append_assoc)
  finally show ?case .
qed

lemma indent_str_Suc: "indent_str (Suc i) = indent_str i @ ''    ''"
  by (simp add: indent_str_def replicate_append_same [symmetric])

lemma render_lines_indented:
  "l \<in> set (render_lines i c) \<Longrightarrow> l = [] \<or> (\<exists>rest. l = indent_str i @ rest)"
proof (induction i c arbitrary: l rule: render_lines.induct)
  case (1 i cn fs r ns)
  then show ?case
    by (auto simp add: render_field_def field_line_def root_helpers_def indent_str_Suc
        split: if_splits)
qed


lemma render_lines_avoid_newline:
  "decl_avoids [CHR 0x0A] c \<Longrightarrow> list_all (avoids [CHR 0x0A]) (render_lines i c)"
proof (induction i c rule: render_lines.induct)
  case (1 i cn fs r ns)
  then show ?case
    by (auto simp add: render_field_def field_line_def root_helpers_def avoids_indent_str
        list_all_iff)
qed

lemma render_lines_body:
  "render_lines i (ClassDecl cn fs r ns) =
     (indent_str i @ ''public class '' @ cn @ '' {'') #
     (map (render_field i) fs @ (if r then root_helpers (indent_str i) cn else []) @
      concat (map (render_lines (Suc i)) ns)) @ [indent_str i @ ''}''] \<and>
   (\<forall>l \<in> set (map (render_field i) fs @ (if r then root_helpers (indent_str i) cn else []) @
      concat (map (render_lines (Suc i)) ns)). l = [] \<or> (\<exists>rest. l = indent_str (Suc i) @ rest))"
  using render_lines_indented [of _ "Suc i"]
  by (auto simp add: render_field_def field_line_def root_helpers_def indent_str_Suc)

lemma field_resolves_mono:
  "field_resolves ns f \<Longrightarrow> set ns \<subseteq> set ms \<Longrightarrow> field_resolves ms f"
  by (auto simp add: field_resolves_def list_ex_iff)

lemma build_fields_typed:
  "build_fields d = Inr (fs, ns) \<Longrightarrow> list_all (field_resolves ns) fs \<and> list_all decl_typed ns"
proof (induction d arbitrary: fs ns rule: items_induct)
  case Nil
  then show ?case by simp
next
  case (Cons k v items)
  from Cons.prems obtain f n fs' ns' where
    item: "build_item k v = Inr (f, n)" and rest: "build_fields items = Inr (fs', ns')"
    and fs: "fs = f # fs'" and ns: "ns = n @ ns'"
    by (auto split: sum.splits)
  from Cons.IH(2) [OF rest] have IHr: "list_all (field_resolves (n @ ns')) fs'"
    and IHn: "list_all decl_typed ns'"
    by (auto simp add: list_all_iff intro: field_resolves_mono)
  show ?case
  proof (cases "object_shaped v")
    case True
    with item obtain ncn fs'' ns'' where
      nested: "build_fields (nested_items v) = Inr (fs'', ns'')"
      and f: "f = make_field k (ref_type v ncn)" and n: "n = [ClassDecl ncn fs'' False ns'']"
      by (auto simp add: build_item_eq split: sum.splits)
    have "field_resolves n f"
      by (simp add: field_resolves_def f n make_field_def Let_def ref_type_def split: json.splits)
    then have "field_resolves ns f" by (rule field_resolves_mono) (simp add: ns)
    with Cons.IH(1) [OF True nested] IHr IHn show ?thesis by (simp add: fs ns n)
  next
    case False
    with item have "f = make_field k (infer_apex_type v)" and "n = []"
      by (simp_all add: build_item_eq)
    moreover have "parse_type (infer_apex_type v) \<noteq> None"
      by (simp add: infer_apex_type_render parse_render_type)
    ultimately have "field_resolves ns f" and "ns = ns'"
      by (simp_all add: field_resolves_def make_field_def Let_def ns)
    with IHr IHn \<open>n = []\<close> show ?thesis by (simp add: fs)
  qed
qed

end
