(* ===== verification/Generator.thy ===== *)
theory Generator
  imports ClassTree
begin

text \<open>
  The class tree generator \<^verbatim>\<open>generate_apex_class\<close> of \<^verbatim>\<open>src/json2apex.py\<close>
  (lines 50--88), written as the source writes it: the list \<^verbatim>\<open>fields\<close> of output
  lines (\<open>field_lines\<close>: the record \<open>field_desc\<close> takes the name \<open>fields\<close>), the list \<^verbatim>\<open>inner_classes\<close> of nested class texts, the loop over
  \<^verbatim>\<open>json_data.items()\<close> as the recursion \<open>gen_fields\<close> and its body
  (lines 59--74) as \<open>gen_item\<close>, each \<^verbatim>\<open>IndexError\<close> of \<^verbatim>\<open>name[0]\<close> and
  \<^verbatim>\<open>key[0]\<close> as an \<open>Inl\<close> that propagates as the exception would.
  The generator is proved to be the renderer of \<open>ClassTree\<close> applied to the built
  tree (\<open>generate_render\<close>), so properties of the tree carry over to the text.
\<close>

fun generate_apex_class :: "string \<Rightarrow> (string \<times> json) list \<Rightarrow> nat \<Rightarrow> bool \<Rightarrow> string result"
and gen_fields :: "nat \<Rightarrow> (string \<times> json) list \<Rightarrow> (string list \<times> string list) result"
and gen_item :: "nat \<Rightarrow> string \<Rightarrow> json \<Rightarrow> (string \<times> string list) result" where
  "generate_apex_class name json_data indent is_root =
     (case class_name_of name of
        Inl e \<Rightarrow> Inl e
      | Inr class_name \<Rightarrow>
          (case gen_fields indent json_data of
             Inl e \<Rightarrow> Inl e
           | Inr (field_lines, inner_classes) \<Rightarrow>
               Inr (py_join newline
                 ([indent_str indent @ ''public class '' @ class_name @ '' {''] @ field_lines @
                  (if is_root then root_helpers (indent_str indent) class_name else []) @
                  inner_classes @ [indent_str indent @ ''}'']))))"
| "gen_fields indent [] = Inr ([], [])"
| "gen_fields indent ((key, value) # items) =
     (case gen_item indent key value of
        Inl e \<Rightarrow> Inl e
      | Inr (line, nested_code) \<Rightarrow>
          (case gen_fields indent items of
             Inl e \<Rightarrow> Inl e
           | Inr (field_lines, inner_classes) \<Rightarrow> Inr (line # field_lines, nested_code @ inner_classes)))"
| "gen_item indent key value =
     (let field_name = safe_field_name key;
          comment = rename_comment key field_name
      in case value of
           JObj d \<Rightarrow>
             (case class_name_of key of
                Inl e \<Rightarrow> Inl e
              | Inr nested_class_name \<Rightarrow>
                  (case generate_apex_class key d (indent + 1) False of
                     Inl e \<Rightarrow> Inl e
                   | Inr nested_code \<Rightarrow> Inr (field_line indent nested_class_name field_name comment, [nested_code])))
         | JList (JObj d # _) \<Rightarrow>
             (case class_name_of key of
                Inl e \<Rightarrow> Inl e
              | Inr nested_class_name \<Rightarrow>
                  (case generate_apex_class key d (indent + 1) False of
                     Inl e \<Rightarrow> Inl e
                   | Inr nested_code \<Rightarrow>
                       Inr (field_line indent (''List<'' @ nested_class_name @ ''>'') field_name comment,
                            [nested_code])))
         | _ \<Rightarrow> Inr (field_line indent (infer_apex_type value) field_name comment, []))"

text \<open>The field type the specification (section 4.3) prescribes for a key and value.\<close>

definition expected_field_type :: "string \<Rightarrow> json \<Rightarrow> string" where
  "expected_field_type k v =
     (if object_shaped v then ref_type v (py_upper_char (hd k) # to_camel_case (tl k))
      else infer_apex_type v)"

text \<open>Every key that introduces a nested class is non-empty, at every depth.\<close>

fun names_ok :: "(string \<times> json) list \<Rightarrow> bool" where
  "names_ok [] = True"
| "names_ok ((k, JObj d) # items) = (k \<noteq> [] \<and> names_ok d \<and> names_ok items)"
| "names_ok ((k, JList (JObj d # vs)) # items) = (k \<noteq> [] \<and> names_ok d \<and> names_ok items)"
| "names_ok ((k, v) # items) = names_ok items"


lemma names_ok_Cons:
  "names_ok ((k, v) # items) \<longleftrightarrow>
     (object_shaped v \<longrightarrow> k \<noteq> [] \<and> names_ok (nested_items v)) \<and> names_ok items"
  by (cases v rule: object_shaped.cases) auto

lemma gen_item_eq:
  "gen_item indent key v =
     (if object_shaped v then
        (case class_name_of key of
           Inl e \<Rightarrow> Inl e
         | Inr ncn \<Rightarrow>
             (case generate_apex_class key (nested_items v) (Suc indent) False of
                Inl e \<Rightarrow> Inl e
              | Inr c \<Rightarrow>
                  Inr (field_line indent (ref_type v ncn) (safe_field_name key)
                         (rename_comment key (safe_field_name key)), [c])))
      else Inr (field_line indent (infer_apex_type v) (safe_field_name key)
             (rename_comment key (safe_field_name key)), []))"
  by (cases v rule: object_shaped.cases) (auto simp add: Let_def ref_type_def split: sum.splits)

lemma gen_item_plain:
  "\<not> object_shaped v \<Longrightarrow>
   gen_item indent key v =
     Inr (field_line indent (infer_apex_type v) (safe_field_name key)
       (rename_comment key (safe_field_name key)), [])"
  by (cases v rule: object_shaped.cases) (simp_all add: Let_def)


lemma generate_render:
  "generate_apex_class name d indent is_root =
     map_sum id (render_class indent) (build_class name d is_root)"
  "gen_fields indent items =
     map_sum id (\<lambda>(fs, ns). (map (render_field indent) fs, map (render_class (Suc indent)) ns))
       (build_fields items)"
  "gen_item indent key v =
     map_sum id (\<lambda>(f, ns). (render_field indent f, map (render_class (Suc indent)) ns))
       (build_item key v)"
proof (induction name d indent is_root and indent items and indent key v
    rule: generate_apex_class_gen_fields_gen_item.induct)
  case (1 name json_data indent is_root)
  then show ?case by (auto split: sum.splits)
next
  case (2 indent)
  then show ?case by simp
next
  case (3 indent key v items)
  then show ?case by (auto split: sum.splits)
next
  case (4 indent key v)
  note IH_list = "4.IH"(1)[OF refl refl] and IH_obj = "4.IH"(2)[OF refl refl]
  consider (obj) d where "v = JObj d" | (list) d vs where "v = JList (JObj d # vs)"
    | (plain) "\<not> object_shaped v"
    by (cases v rule: object_shaped.cases) auto
  then show ?case
  proof cases
    case obj
    then show ?thesis using IH_obj [OF obj]
      by (auto simp add: make_field_def render_field_def Let_def
          build_item.simps simp del: generate_apex_class.simps build_class.simps split: sum.splits)
  next
    case list
    then show ?thesis using IH_list [OF list refl refl]
      by (auto simp add: make_field_def render_field_def Let_def
          build_item.simps simp del: generate_apex_class.simps build_class.simps split: sum.splits)
  next
    case plain
    then show ?thesis
      by (simp add: gen_item_plain build_item_plain make_field_def render_field_def Let_def
          del: gen_item.simps build_item.simps)
  qed
qed

lemma generate_built:
  assumes "generate_apex_class name d indent is_root = Inr s"
  obtains cn fs ns where "class_name_of name = Inr cn" and "build_fields d = Inr (fs, ns)"
    and "build_class name d is_root = Inr (ClassDecl cn fs is_root ns)"
    and "s = render_class indent (ClassDecl cn fs is_root ns)"
proof -
  from assms have "map_sum id (render_class indent) (build_class name d is_root) = Inr s"
    by (simp only: generate_render(1))
  then obtain c where c: "build_class name d is_root = Inr c" and s: "s = render_class indent c"
    by (cases "build_class name d is_root") auto
  from c obtain cn fs ns where "class_name_of name = Inr cn" and "build_fields d = Inr (fs, ns)"
    and "c = ClassDecl cn fs is_root ns"
    by (auto split: sum.splits)
  with that c s show ?thesis by blast
qed

declare gen_item.simps [simp del]

lemma gen_item_errors:
  "gen_item indent key v = Inl e \<Longrightarrow> object_shaped v \<and>
     (key = [] \<or> generate_apex_class key (nested_items v) (Suc indent) False = Inl e)"
  by (cases key) (auto simp add: gen_item_eq split: if_splits sum.splits)

lemma gen_fields_result:
  "case_sum (\<lambda>e. e = IndexError \<and> \<not> names_ok d) (\<lambda>_. names_ok d) (gen_fields indent d)"
proof (induction d arbitrary: indent rule: items_induct)
  case Nil
  then show ?case by simp
next
  case (Cons k v items)
  show ?case
  proof (cases "object_shaped v")
    case True
    with Cons.IH show ?thesis
      by (cases k) (fastforce simp add: gen_item_eq names_ok_Cons split: sum.splits)+
  next
    case False
    with Cons.IH(2) [of indent] show ?thesis
      by (auto simp add: gen_item_eq names_ok_Cons split: sum.splits)
  qed
qed

lemma gen_fields_error_iff:
  "gen_fields indent d = Inl e \<longleftrightarrow> e = IndexError \<and> \<not> names_ok d"
  using gen_fields_result [of d indent] by (auto split: sum.splits)

lemma generate_apex_class_result:
  "case_sum (\<lambda>e. e = IndexError \<and> (name = [] \<or> \<not> names_ok d)) (\<lambda>_. name \<noteq> [] \<and> names_ok d)
     (generate_apex_class name d indent is_root)"
  using gen_fields_result [of d indent] by (cases name) (auto split: sum.splits)

text \<open>C6: The generator fails exactly when the class name or some key that introduces a nested class (at any depth) is empty, and the failure is always IndexError.\<close>

lemma generate_apex_class_errors:
  "generate_apex_class name d indent is_root = Inl e \<longleftrightarrow>
     e = IndexError \<and> (name = [] \<or> \<not> names_ok d)"
  using generate_apex_class_result [of name d indent is_root] by (auto split: sum.splits)


lemma class_name_of_Inr: "class_name_of k = Inr cn \<Longrightarrow> cn = py_upper_char (hd k) # to_camel_case (tl k)"
  by (cases k) auto

text \<open>C7: When the loop over the items succeeds, it emits one field line per key, in the keys' order, with the sanitized field name, the rename comment, and the type the specification prescribes: the PascalCase class name for an object, List of it for an array of objects, the inferred type otherwise.\<close>

lemma gen_fields_lines:
  "gen_fields indent d = Inr (flines, inner) \<Longrightarrow>
   flines = map (\<lambda>(k, v). field_line indent (expected_field_type k v) (safe_field_name k)
                            (rename_comment k (safe_field_name k))) d"
proof (induction d arbitrary: flines inner rule: items_induct)
  case Nil
  then show ?case by simp
next
  case (Cons k v items)
  then show ?case
    by (auto simp add: gen_item_eq expected_field_type_def dest: class_name_of_Inr
        split: if_splits sum.splits)
qed

text \<open>C8: When the loop succeeds, it produces one nested class per object-shaped value, in key order, each generated one level deeper, not as root, under the key's name, from the object itself or from the first element of the array.\<close>

lemma gen_fields_nested:
  "gen_fields indent d = Inr (flines, inner) \<Longrightarrow>
   map Inr inner =
     map (\<lambda>(k, v). generate_apex_class k (nested_items v) (Suc indent) False)
       (filter (\<lambda>(k, v). object_shaped v) d)"
proof (induction d arbitrary: flines inner rule: items_induct)
  case Nil
  then show ?case by simp
next
  case (Cons k v items)
  then show ?case
    by (auto simp add: gen_item_eq simp del: generate_apex_class.simps split: if_splits sum.splits)
qed

text \<open>C10: A field line carries a rename comment exactly when the sanitizer had to prefix an underscore (reserved word or not an identifier), and the comment records the original key and the new name.\<close>

lemma rename_comment_safe_field_name:
  "rename_comment k (safe_field_name k) =
     (if is_apex_keyword (to_camel_case k) \<or> \<not> py_isidentifier (to_camel_case k)
      then '' // '' @ [dquote] @ k @ [dquote] @ '' -> _'' @ to_camel_case k else [])"
  by (simp add: rename_comment_def safe_field_name_def Let_def)


text \<open>C1: The generator as written (lines of text joined by newlines, nested class texts appended after the fields) is exactly the rendering of a class-declaration tree built from the JSON object: it refines the structured design of the specification, errors included.\<close>

lemma generate_refines_build:
  "generate_apex_class name d indent is_root =
     map_sum id (render_class indent) (build_class name d is_root)"
  by (rule generate_render(1))

lemma gen_fields_lines_witness:
  "\<exists>inner. gen_fields 0 [(''id'', JInt 7), (''address'', JObj [(''zip'', JStr ''1'')])] =
     Inr ([''    public Integer id;'', ''    public Address address;''], inner)"
proof -
  define d where "d = [(''id'', JInt 7), (''address'', JObj [(''zip'', JStr ''1'')])]"
  have h: "gen_fields 0 d = Inr ([''    public Integer id;'', ''    public Address address;''],
    [''    public class Address {\<newline>        public String zip;\<newline>    }''])"
    unfolding d_def by code_simp
  have "map (\<lambda>(k, v). field_line 0 (expected_field_type k v) (safe_field_name k)
          (rename_comment k (safe_field_name k))) d =
        [''    public Integer id;'', ''    public Address address;'']"
    unfolding d_def by code_simp
  with gen_fields_lines [OF h] h show ?thesis by (auto simp add: d_def)
qed

lemma gen_fields_nested_witness:
  "\<exists>flines inner. gen_fields 0 [(''id'', JInt 7), (''address'', JObj [(''zip'', JStr ''1'')])] =
     Inr (flines, inner) \<and>
     map Inr inner = [generate_apex_class ''address'' [(''zip'', JStr ''1'')] 1 False]"
proof -
  define d where "d = [(''id'', JInt 7), (''address'', JObj [(''zip'', JStr ''1'')])]"
  have h: "gen_fields 0 d = Inr ([''    public Integer id;'', ''    public Address address;''],
    [''    public class Address {\<newline>        public String zip;\<newline>    }''])"
    unfolding d_def by code_simp
  from gen_fields_nested [OF h] h show ?thesis by (auto simp add: d_def)
qed

text \<open>C9: Whenever the generator succeeds as root, its text is the rendering of a
  class tree in which the outermost class is the only declaration marked root: the
  serialization helpers are emitted once, on the outermost class, and on no nested class.\<close>

lemma generate_root_only:
  assumes h: "generate_apex_class name d indent True = Inr s"
  shows "\<exists>c. s = render_class indent c \<and> class_name_of name = Inr (cd_name c) \<and>
           filter cd_root (all_decls c) = [c]"
proof -
  from h obtain cn fs ns where "class_name_of name = Inr cn"
    and c: "build_class name d True = Inr (ClassDecl cn fs True ns)"
    and "s = render_class indent (ClassDecl cn fs True ns)"
    by (rule generate_built)
  with build_class_root_flags [OF c] show ?thesis by (intro exI [of _ "ClassDecl cn fs True ns"]) simp
qed

lemma generate_root_only_witness:
  "\<exists>s c. generate_apex_class ''Root'' [(''address'', JObj [(''zip'', JStr ''1'')])] 0 True = Inr s \<and>
     s = render_class 0 c \<and> class_name_of ''Root'' = Inr (cd_name c) \<and>
     filter cd_root (all_decls c) = [c]"
proof -
  define d where "d = [(''address'', JObj [(''zip'', JStr ''1'')])]"
  define out where "out = ''public class Root {\<newline>    public Address address;\<newline>\<newline>    public static Root fromJSON(String json) {\<newline>        return (Root) JSON.deserialize(json, Root.class);\<newline>    }\<newline>\<newline>    public String toJSON() {\<newline>        return JSON.serialize(this);\<newline>    }\<newline>    public class Address {\<newline>        public String zip;\<newline>    }\<newline>}''"
  have h: "generate_apex_class ''Root'' d 0 True = Inr out"
    unfolding d_def out_def by code_simp
  from generate_root_only [OF h] obtain c where
    "out = render_class 0 c" "class_name_of ''Root'' = Inr (cd_name c)"
    "filter cd_root (all_decls c) = [c]" by blast
  with h show ?thesis unfolding d_def by blast
qed

lemma generate_apex_class_header:
  "generate_apex_class name d indent is_root = Inr s \<Longrightarrow> class_name_of name = Inr cn \<Longrightarrow>
   \<exists>rest. s = indent_str indent @ ''public class '' @ cn @ '' {'' @ rest"
  by (auto simp add: py_join_Cons split: sum.splits)

text \<open>C17: For every key whose value is object-shaped, the field line declares the type
  that names the nested class (the class name, or List of it), and among the nested class
  texts there is one opening with the header of exactly that class, one level deeper.\<close>

lemma gen_fields_field_class_match:
  assumes "gen_fields indent d = Inr (flines, inner)" and "(k, v) \<in> set d" and "object_shaped v"
  shows "\<exists>cn code rest. class_name_of k = Inr cn \<and>
     field_line indent (ref_type v cn) (safe_field_name k) (rename_comment k (safe_field_name k))
       \<in> set flines \<and>
     code \<in> set inner \<and> code = indent_str (Suc indent) @ ''public class '' @ cn @ '' {'' @ rest"
  using assms
proof (induction d arbitrary: flines inner rule: items_induct)
  case Nil
  then show ?case by simp
next
  case (Cons k' v' items)
  from Cons.prems(1) obtain l n fl' inner' where
    item: "gen_item indent k' v' = Inr (l, n)" and rest: "gen_fields indent items = Inr (fl', inner')"
    and fl: "flines = l # fl'" and inn: "inner = n @ inner'"
    by (auto split: sum.splits)
  show ?case
  proof (cases "(k, v) = (k', v')")
    case True
    with Cons.prems(3) item obtain cn c where cn: "class_name_of k = Inr cn"
      and gen: "generate_apex_class k (nested_items v) (Suc indent) False = Inr c"
      and l: "l = field_line indent (ref_type v cn) (safe_field_name k) (rename_comment k (safe_field_name k))"
      and n: "n = [c]"
      by (auto simp add: gen_item_eq split: sum.splits)
    from generate_apex_class_header [OF gen cn] obtain r where
      "c = indent_str (Suc indent) @ ''public class '' @ cn @ '' {'' @ r" by blast
    with cn l n fl inn show ?thesis by auto
  next
    case False
    with Cons.prems(2) have "(k, v) \<in> set items" by auto
    from Cons.IH(2) [OF rest this Cons.prems(3)] fl inn show ?thesis by fastforce
  qed
qed


lemma gen_fields_field_class_match_witness:
  "\<exists>cn code rest. class_name_of ''address'' = Inr cn \<and>
     field_line 0 (ref_type (JObj [(''zip'', JStr ''1'')]) cn) (safe_field_name ''address'')
       (rename_comment ''address'' (safe_field_name ''address''))
       \<in> set [''    public Integer id;'', ''    public Address address;''] \<and>
     code \<in> set [''    public class Address {\<newline>        public String zip;\<newline>    }''] \<and>
     code = indent_str 1 @ ''public class '' @ cn @ '' {'' @ rest"
proof -
  define d where "d = [(''id'', JInt 7), (''address'', JObj [(''zip'', JStr ''1'')])]"
  have h: "gen_fields 0 d = Inr ([''    public Integer id;'', ''    public Address address;''],
    [''    public class Address {\<newline>        public String zip;\<newline>    }''])"
    unfolding d_def by code_simp
  have mem: "(''address'', JObj [(''zip'', JStr ''1'')]) \<in> set d" by (simp add: d_def)
  have obj: "object_shaped (JObj [(''zip'', JStr ''1'')])" by simp
  from gen_fields_field_class_match [OF h mem obj] show ?thesis by simp
qed

text \<open>C28: Every class text the generator prints is the rendering of a well-typed class tree:
  the declared type of every field, at every depth, is either an Apex type expression or
  the name of a class nested in the declaring class (or a list of it).\<close>

theorem generate_apex_class_typed:
  assumes "generate_apex_class name d indent is_root = Inr s"
  shows "\<exists>c. s = render_class indent c \<and> decl_typed c"
proof -
  from assms obtain cn fs ns where "build_fields d = Inr (fs, ns)"
    and "s = render_class indent (ClassDecl cn fs is_root ns)"
    by (rule generate_built)
  with build_fields_typed show ?thesis by fastforce
qed

lemma generate_apex_class_typed_witness:
  "\<exists>c. ''public class Root {\<newline>    public List<A> a;\<newline>    public Integer b;\<newline>    public class A {\<newline>    }\<newline>}'' = render_class 0 c \<and> decl_typed c"
proof -
  have h: "generate_apex_class ''Root'' [(''a'', JList [JObj []]), (''b'', JInt 2)] 0 False =
    Inr ''public class Root {\<newline>    public List<A> a;\<newline>    public Integer b;\<newline>    public class A {\<newline>    }\<newline>}''"
    by code_simp
  from generate_apex_class_typed [OF h] show ?thesis .
qed

text \<open>Class names are not made unique: the keys a_b and aB under one object both give
  a nested class AB, so the root text declares two inner classes of the same name; and the
  key root under the class Root gives an inner class Root, named like its enclosing class.\<close>

theorem nested_class_name_clash:
  "(\<exists>s. generate_apex_class ''Root'' [(''a_b'', JObj []), (''aB'', JObj [])] 0 True = Inr s \<and>
      count_list (py_split (CHR 0x0A) s) ''    public class AB {'' = 2) \<and>
   (\<exists>s. generate_apex_class ''Root'' [(''root'', JObj [])] 0 True = Inr s \<and>
      ''    public class Root {'' \<in> set (py_split (CHR 0x0A) s))"
proof -
  define s1 where "s1 = ''public class Root {\<newline>    public AB aB;\<newline>    public AB aB;\<newline>\<newline>    public static Root fromJSON(String json) {\<newline>        return (Root) JSON.deserialize(json, Root.class);\<newline>    }\<newline>\<newline>    public String toJSON() {\<newline>        return JSON.serialize(this);\<newline>    }\<newline>    public class AB {\<newline>    }\<newline>    public class AB {\<newline>    }\<newline>}''"
  define s2 where "s2 = ''public class Root {\<newline>    public Root root;\<newline>\<newline>    public static Root fromJSON(String json) {\<newline>        return (Root) JSON.deserialize(json, Root.class);\<newline>    }\<newline>\<newline>    public String toJSON() {\<newline>        return JSON.serialize(this);\<newline>    }\<newline>    public class Root {\<newline>    }\<newline>}''"
  have "generate_apex_class ''Root'' [(''a_b'', JObj []), (''aB'', JObj [])] 0 True = Inr s1"
    unfolding s1_def by code_simp
  moreover have "count_list (py_split (CHR 0x0A) s1) ''    public class AB {'' = 2"
    unfolding s1_def by code_simp
  moreover have "generate_apex_class ''Root'' [(''root'', JObj [])] 0 True = Inr s2"
    unfolding s2_def by code_simp
  moreover have "''    public class Root {'' \<in> set (py_split (CHR 0x0A) s2)"
    unfolding s2_def by code_simp
  ultimately show ?thesis by blast
qed

end
