(* ===== verification/Driver.thy ===== *)
theory Driver
  imports Generator
begin

text \<open>
  The entry point \<^verbatim>\<open>convert_json_to_apex\<close> of \<^verbatim>\<open>src/json2apex.py\<close>
  (lines 91--97): it picks the object to generate from (the value itself, or the first
  element of a non-empty array of objects) and raises \<^verbatim>\<open>ValueError\<close> otherwise.
  The default root class name \<^verbatim>\<open>"Root"\<close> of its signature (and of the command
  line option \<^verbatim>\<open>-c\<close>) is \<open>convert_json_to_apex_default\<close>.
\<close>

definition invalid_input_msg :: string where
  "invalid_input_msg = ''JSON must be an object or a list of objects.''"

definition convert_json_to_apex :: "json \<Rightarrow> string \<Rightarrow> string result" where
  "convert_json_to_apex json_data root_class_name =
     (case json_data of
        JObj d \<Rightarrow> generate_apex_class root_class_name d 0 True
      | JList (JObj d # _) \<Rightarrow> generate_apex_class root_class_name d 0 True
      | _ \<Rightarrow> Inl (ValueError invalid_input_msg))"

definition convert_json_to_apex_default :: "json \<Rightarrow> string result" where
  "convert_json_to_apex_default json_data = convert_json_to_apex json_data ''Root''"

lemma convert_json_to_apex_eq:
  "convert_json_to_apex v r =
     (if object_shaped v then generate_apex_class r (nested_items v) 0 True
      else Inl (ValueError invalid_input_msg))"
  by (cases v rule: object_shaped.cases) (simp_all add: convert_json_to_apex_def)

lemma convert_render:
  assumes out: "convert_json_to_apex v r = Inr s"
    and cs: "nonletters cs" "avoids cs (''_ /-><'' @ [dquote])"
    and root: "avoids cs r" and keys: "list_all (avoids cs) (json_keys v)"
  shows "\<exists>cn fs ns. class_name_of r = Inr cn \<and> s = render_class 0 (ClassDecl cn fs True ns) \<and>
     decl_avoids cs (ClassDecl cn fs True ns)"
proof -
  from out have shaped: "object_shaped v"
    and gen: "generate_apex_class r (nested_items v) 0 True = Inr s"
    by (simp_all add: convert_json_to_apex_eq split: if_splits)
  from gen obtain cn fs ns where cn: "class_name_of r = Inr cn"
    and fields: "build_fields (nested_items v) = Inr (fs, ns)"
    and s: "s = render_class 0 (ClassDecl cn fs True ns)"
    by (rule generate_built)
  have "list_all (avoids cs) (json_keys (JObj (nested_items v)))"
    using keys json_keys_nested_items [OF shaped] by (auto simp add: list_all_iff)
  then have "decl_avoids cs (ClassDecl cn fs True ns)"
    using build_fields_avoids [OF cs fields] avoids_class_name [OF cs(1) cn root] by simp
  with cn s show ?thesis by blast
qed

text \<open>C2: The program fails exactly in two ways: ValueError with its message when the input is neither an object nor a non-empty array whose first element is an object, and IndexError when the root name or a key introducing a nested class is empty.\<close>

lemma convert_errors:
  "convert_json_to_apex v r = Inl e \<longleftrightarrow>
     (if object_shaped v then e = IndexError \<and> (r = [] \<or> \<not> names_ok (nested_items v))
      else e = ValueError invalid_input_msg)"
  using generate_apex_class_result [of r "nested_items v" 0 True]
  by (auto simp add: convert_json_to_apex_eq split: sum.splits)

text \<open>C14: An array whose first element is an object is converted as that first element alone: the remaining elements are ignored.\<close>

lemma convert_list_first:
  "convert_json_to_apex (JList (JObj d # rest)) r = convert_json_to_apex (JObj d) r"
  by (simp add: convert_json_to_apex_def)

text \<open>An empty array, a bare number and an array of scalars are rejected with ValueError.\<close>

lemma convert_rejects_scalar_and_empty:
  "convert_json_to_apex (JList []) r = Inl (ValueError invalid_input_msg) \<and>
   convert_json_to_apex (JInt 42) r = Inl (ValueError invalid_input_msg) \<and>
   convert_json_to_apex (JList [JInt 1, JInt 2]) r = Inl (ValueError invalid_input_msg)"
  by (simp add: convert_json_to_apex_def)

end
