(* ===== verification/Cli.thy ===== *)
theory Cli
  imports Driver
begin

text \<open>
  The command-line entry point \<^verbatim>\<open>main\<close> of \<^verbatim>\<open>src/json2apex.py\<close>
  (lines 99--118). The parsed arguments are the record \<open>cli_args\<close>, with the fields
  and defaults the parser declares (lines 100--103); how \<^verbatim>\<open>argparse\<close> turns a
  command line into that namespace is the library's and is not modelled. The effects of
  \<^verbatim>\<open>main\<close> act on a world of files and standard output: \<open>read_file\<close> is
  \<^verbatim>\<open>open(path, 'r').read()\<close>, \<open>write_file\<close> is
  \<^verbatim>\<open>open(path, 'w').write(s)\<close> taken as one step that either
  fails with \<^verbatim>\<open>PermissionError\<close> before touching the file or replaces its
  contents (in Python the \<^verbatim>\<open>open\<close> truncates the file before
  \<^verbatim>\<open>write\<close> runs, so a \<^verbatim>\<open>write\<close> that raises, e.g. an encoding error,
  leaves an empty file; the model has no such failure), \<open>py_print\<close> is \<^verbatim>\<open>print(s)\<close>, which appends
  a line break. The JSON text parser \<^verbatim>\<open>json.loads\<close> is the standard library's; it
  is a parameter \<open>loads\<close> of \<open>main\<close>, with \<open>None\<close> for
  \<^verbatim>\<open>json.JSONDecodeError\<close>, so every lemma here holds for any parser. An exception
  that escapes \<^verbatim>\<open>main\<close> ends the program; \<open>main\<close> returns the world at that point
  together with the exception, or \<open>None\<close> when it returns normally.
\<close>

record cli_args =
  arg_input :: string
  arg_output :: "string option"
  arg_classname :: string

text \<open>The namespace \<^verbatim>\<open>parse_args\<close> returns when only the positional argument is
  given: no output path, the root class name \<^verbatim>\<open>'Root'\<close>.\<close>

definition default_args :: "string \<Rightarrow> cli_args" where
  "default_args path = \<lparr>arg_input = path, arg_output = None, arg_classname = ''Root''\<rparr>"

record world =
  files :: "string \<rightharpoonup> string"
  writable :: "string \<Rightarrow> bool"
  stdout :: string

datatype main_error =
    FileNotFoundError string
  | JSONDecodeError
  | PermissionError string
  | ConvertError py_error

definition read_file :: "string \<Rightarrow> world \<Rightarrow> main_error + string" where
  "read_file path w = (case files w path of None \<Rightarrow> Inl (FileNotFoundError path) | Some s \<Rightarrow> Inr s)"

definition write_file :: "string \<Rightarrow> string \<Rightarrow> world \<Rightarrow> main_error + world" where
  "write_file path s w =
     (if writable w path then Inr (w\<lparr>files := (files w)(path \<mapsto> s)\<rparr>)
      else Inl (PermissionError path))"

definition py_print :: "string \<Rightarrow> world \<Rightarrow> world" where
  "py_print s w = w\<lparr>stdout := stdout w @ s @ newline\<rparr>"

text \<open>Python's truth value of an optional string: \<^verbatim>\<open>None\<close> and \<^verbatim>\<open>''\<close> are false.\<close>

definition py_truthy :: "string option \<Rightarrow> bool" where
  "py_truthy s = (case s of None \<Rightarrow> False | Some p \<Rightarrow> p \<noteq> [])"

definition written_msg :: "string \<Rightarrow> string" where
  "written_msg path = ''Apex class written to '' @ path"

definition main :: "(string \<Rightarrow> json option) \<Rightarrow> cli_args \<Rightarrow> world \<Rightarrow> world \<times> main_error option" where
  "main loads args w =
     (case read_file (arg_input args) w of
        Inl e \<Rightarrow> (w, Some e)
      | Inr json_str \<Rightarrow>
          (case loads json_str of
             None \<Rightarrow> (w, Some JSONDecodeError)
           | Some json_data \<Rightarrow>
               (case convert_json_to_apex json_data (arg_classname args) of
                  Inl e \<Rightarrow> (w, Some (ConvertError e))
                | Inr apex_code \<Rightarrow>
                    (if py_truthy (arg_output args) then
                       (case write_file (the (arg_output args)) apex_code w of
                          Inl e \<Rightarrow> (w, Some e)
                        | Inr w' \<Rightarrow> (py_print (written_msg (the (arg_output args))) w', None))
                     else (py_print apex_code w, None)))))"

lemma read_file_Some [simp]: "files w path = Some s \<Longrightarrow> read_file path w = Inr s"
  by (simp add: read_file_def)

lemma read_file_None [simp]: "files w path = None \<Longrightarrow> read_file path w = Inl (FileNotFoundError path)"
  by (simp add: read_file_def)

lemma py_truthy_Some [simp]: "py_truthy (Some p) \<longleftrightarrow> p \<noteq> []"
  by (simp add: py_truthy_def)

lemma py_truthy_None [simp]: "\<not> py_truthy None"
  by (simp add: py_truthy_def)

lemma main_normal_return:
  assumes "main loads a w = (w', None)"
  shows "\<exists>str v code. files w (arg_input a) = Some str \<and> loads str = Some v \<and>
     convert_json_to_apex v (arg_classname a) = Inr code \<and>
     (if py_truthy (arg_output a)
      then writable w (the (arg_output a)) \<and>
        w' = py_print (written_msg (the (arg_output a))) (w\<lparr>files := (files w)(the (arg_output a) \<mapsto> code)\<rparr>)
      else w' = py_print code w)"
  using assms by (auto simp add: main_def read_file_def write_file_def
      split: option.splits sum.splits if_splits)

text \<open>C19: When the input file holds a document that parses and converts, and the output
  path is non-empty and writable, main writes the generated class to the output path,
  prints the confirmation line, and returns normally.\<close>

theorem main_writes_output:
  assumes "files w (arg_input a) = Some str" and "loads str = Some v"
    and "convert_json_to_apex v (arg_classname a) = Inr code"
    and "arg_output a = Some out" and "out \<noteq> []" and "writable w out"
  shows "main loads a w =
    (w\<lparr>files := (files w)(out \<mapsto> code),
        stdout := stdout w @ ''Apex class written to '' @ out @ newline\<rparr>, None)"
  using assms by (simp add: main_def write_file_def py_print_def written_msg_def)

text \<open>C20: When the document parses and converts and the output option is absent or
  empty, main prints the generated class followed by a line break and writes no file.\<close>

theorem main_prints_code:
  assumes "files w (arg_input a) = Some str" and "loads str = Some v"
    and "convert_json_to_apex v (arg_classname a) = Inr code"
    and "arg_output a = None \<or> arg_output a = Some []"
  shows "main loads a w = (w\<lparr>stdout := stdout w @ code @ newline\<rparr>, None)"
  using assms by (auto simp add: main_def py_print_def)

text \<open>C21: Once the input file is read and parsed, main raises a conversion error exactly
  as the entry point does: ValueError with the program's message for a document that is
  not an object or a non-empty array of objects, IndexError when the root class name or a
  key that introduces a nested class is empty.\<close>

theorem main_convert_error:
  assumes "files w (arg_input a) = Some str" and "loads str = Some v"
  shows "snd (main loads a w) = Some (ConvertError e) \<longleftrightarrow>
    (if object_shaped v then e = IndexError \<and> (arg_classname a = [] \<or> \<not> names_ok (nested_items v))
     else e = ValueError invalid_input_msg)"
  using assms generate_apex_class_result [of "arg_classname a" "nested_items v" 0 True]
  by (auto simp add: main_def convert_json_to_apex_eq write_file_def split: sum.splits)

text \<open>C22: main only appends to standard output, never changes which paths are
  writable, and changes no file other than the output path.\<close>

theorem main_frame:
  "\<exists>sfx. stdout (fst (main loads a w)) = stdout w @ sfx \<and>
     writable (fst (main loads a w)) = writable w \<and>
     (\<forall>p. arg_output a \<noteq> Some p \<longrightarrow> files (fst (main loads a w)) p = files w p)"
  by (auto simp add: main_def write_file_def py_print_def py_truthy_def split: option.splits sum.splits)

text \<open>C23: When main returns normally with a non-empty output path, the input file held
  a document that parses and converts, and reading the output path back gives exactly the
  generated class; standard output holds the confirmation line.\<close>

theorem main_output_readback:
  assumes "main loads a w = (w', None)" and "arg_output a = Some out" and "out \<noteq> []"
  shows "\<exists>str v code. files w (arg_input a) = Some str \<and> loads str = Some v \<and>
     convert_json_to_apex v (arg_classname a) = Inr code \<and> read_file out w' = Inr code \<and>
     stdout w' = stdout w @ ''Apex class written to '' @ out @ newline"
  using main_normal_return [OF assms(1)] assms(2,3)
  by (auto simp add: py_print_def written_msg_def read_file_def)

text \<open>C24: An empty output path (\<^verbatim>\<open>-o ''\<close>) is false in Python's
  \<^verbatim>\<open>if args.output\<close>: main then behaves as if no output path were given and prints
  the class instead of writing a file.\<close>

theorem main_empty_output_prints:
  assumes "arg_output a = Some []"
  shows "main loads a w = main loads (a\<lparr>arg_output := None\<rparr>) w"
  using assms by (simp add: main_def split: sum.splits option.splits)

theorem main_writes_output_witness:
  "main (\<lambda>s. if s = ''{}'' then Some (JObj []) else None)
     \<lparr>arg_input = ''in.json'', arg_output = Some ''Root.cls'', arg_classname = ''Root''\<rparr>
     \<lparr>files = [''in.json'' \<mapsto> ''{}''], writable = (\<lambda>p. p = ''Root.cls''), stdout = []\<rparr> =
   (\<lparr>files = [''in.json'' \<mapsto> ''{}'', ''Root.cls'' \<mapsto> ''public class Root {\<newline>\<newline>    public static Root fromJSON(String json) {\<newline>        return (Root) JSON.deserialize(json, Root.class);\<newline>    }\<newline>\<newline>    public String toJSON() {\<newline>        return JSON.serialize(this);\<newline>    }\<newline>}''],
     writable = (\<lambda>p. p = ''Root.cls''), stdout = ''Apex class written to Root.cls\<newline>''\<rparr>, None)"
proof -
  have c: "convert_json_to_apex (JObj []) ''Root'' = Inr ''public class Root {\<newline>\<newline>    public static Root fromJSON(String json) {\<newline>        return (Root) JSON.deserialize(json, Root.class);\<newline>    }\<newline>\<newline>    public String toJSON() {\<newline>        return JSON.serialize(this);\<newline>    }\<newline>}''"
    by code_simp
  show ?thesis
    by (subst main_writes_output [of _ _ "''{}''" _ "JObj []" _ "''Root.cls''"])
       (simp_all add: c)
qed

theorem main_prints_code_witness:
  "main (\<lambda>s. if s = ''{}'' then Some (JObj []) else None) (default_args ''in.json'')
     \<lparr>files = [''in.json'' \<mapsto> ''{}''], writable = (\<lambda>p. False), stdout = []\<rparr> =
   (\<lparr>files = [''in.json'' \<mapsto> ''{}''], writable = (\<lambda>p. False),
     stdout = ''public class Root {\<newline>\<newline>    public static Root fromJSON(String json) {\<newline>        return (Root) JSON.deserialize(json, Root.class);\<newline>    }\<newline>\<newline>    public String toJSON() {\<newline>        return JSON.serialize(this);\<newline>    }\<newline>}\<newline>''\<rparr>, None)"
proof -
  have c: "convert_json_to_apex (JObj []) ''Root'' = Inr ''public class Root {\<newline>\<newline>    public static Root fromJSON(String json) {\<newline>        return (Root) JSON.deserialize(json, Root.class);\<newline>    }\<newline>\<newline>    public String toJSON() {\<newline>        return JSON.serialize(this);\<newline>    }\<newline>}''"
    by code_simp
  show ?thesis
    by (subst main_prints_code [of _ _ "''{}''" _ "JObj []"]) (simp_all add: c default_args_def)
qed

theorem main_convert_error_witness:
  "files \<lparr>files = [''in.json'' \<mapsto> ''[]''], writable = (\<lambda>p. True), stdout = []\<rparr> ''in.json'' = Some ''[]'' \<and>
   (\<lambda>s. if s = ''[]'' then Some (JList []) else None) ''[]'' = Some (JList []) \<and>
   snd (main (\<lambda>s. if s = ''[]'' then Some (JList []) else None) (default_args ''in.json'')
     \<lparr>files = [''in.json'' \<mapsto> ''[]''], writable = (\<lambda>p. True), stdout = []\<rparr>) =
     Some (ConvertError (ValueError invalid_input_msg))"
proof -
  define w where "w = \<lparr>files = [''in.json'' \<mapsto> ''[]''], writable = (\<lambda>p. True), stdout = []\<rparr>"
  define loads :: "string \<Rightarrow> json option" where "loads = (\<lambda>s. if s = ''[]'' then Some (JList []) else None)"
  have f: "files w (arg_input (default_args ''in.json'')) = Some ''[]''"
    by (simp add: w_def default_args_def)
  have l: "loads ''[]'' = Some (JList [])" by (simp add: loads_def)
  from main_convert_error [of w "default_args ''in.json''" "''[]''" loads "JList []"
      "ValueError invalid_input_msg", OF f l] f l show ?thesis
    unfolding w_def loads_def by (simp add: default_args_def)
qed

theorem main_frame_witness:
  "\<exists>sfx. stdout (fst (main (\<lambda>s. if s = ''{}'' then Some (JObj []) else None) (default_args ''in.json'')
       \<lparr>files = [''in.json'' \<mapsto> ''{}''], writable = (\<lambda>p. False), stdout = ''x''\<rparr>)) = ''x'' @ sfx \<and>
     files (fst (main (\<lambda>s. if s = ''{}'' then Some (JObj []) else None) (default_args ''in.json'')
       \<lparr>files = [''in.json'' \<mapsto> ''{}''], writable = (\<lambda>p. False), stdout = ''x''\<rparr>)) ''in.json'' = Some ''{}''"
  using main_frame [of "\<lambda>s. if s = ''{}'' then Some (JObj []) else None" "default_args ''in.json''"
      "\<lparr>files = [''in.json'' \<mapsto> ''{}''], writable = (\<lambda>p. False), stdout = ''x''\<rparr>"]
  by (auto simp add: default_args_def)

theorem main_output_readback_witness:
  "\<exists>str v code. files \<lparr>files = [''in.json'' \<mapsto> ''{}''], writable = (\<lambda>p. p = ''Root.cls''), stdout = []\<rparr> ''in.json'' = Some str \<and>
     (\<lambda>s. if s = ''{}'' then Some (JObj []) else None) str = Some v \<and>
     convert_json_to_apex v ''Root'' = Inr code \<and>
     read_file ''Root.cls'' (fst (main (\<lambda>s. if s = ''{}'' then Some (JObj []) else None)
       \<lparr>arg_input = ''in.json'', arg_output = Some ''Root.cls'', arg_classname = ''Root''\<rparr>
       \<lparr>files = [''in.json'' \<mapsto> ''{}''], writable = (\<lambda>p. p = ''Root.cls''), stdout = []\<rparr>)) = Inr code \<and>
     stdout (fst (main (\<lambda>s. if s = ''{}'' then Some (JObj []) else None)
       \<lparr>arg_input = ''in.json'', arg_output = Some ''Root.cls'', arg_classname = ''Root''\<rparr>
       \<lparr>files = [''in.json'' \<mapsto> ''{}''], writable = (\<lambda>p. p = ''Root.cls''), stdout = []\<rparr>)) =
       [] @ ''Apex class written to '' @ ''Root.cls'' @ newline"
proof -
  define w where "w = \<lparr>files = [''in.json'' \<mapsto> ''{}''], writable = (\<lambda>p. p = ''Root.cls''), stdout = []\<rparr>"
  define a where "a = \<lparr>arg_input = ''in.json'', arg_output = Some ''Root.cls'', arg_classname = ''Root''\<rparr>"
  define loads :: "string \<Rightarrow> json option" where "loads = (\<lambda>s. if s = ''{}'' then Some (JObj []) else None)"
  have c: "convert_json_to_apex (JObj []) ''Root'' = Inr ''public class Root {\<newline>\<newline>    public static Root fromJSON(String json) {\<newline>        return (Root) JSON.deserialize(json, Root.class);\<newline>    }\<newline>\<newline>    public String toJSON() {\<newline>        return JSON.serialize(this);\<newline>    }\<newline>}''"
    by code_simp
  have run: "main loads a w = (fst (main loads a w), None)"
    using c by (simp add: main_def w_def a_def loads_def write_file_def)
  have "arg_output a = Some ''Root.cls''" "''Root.cls'' \<noteq> []" by (simp_all add: a_def)
  from main_output_readback [OF run this] show ?thesis
    unfolding w_def a_def loads_def by simp
qed

theorem main_empty_output_prints_witness:
  "main (\<lambda>s. None) \<lparr>arg_input = ''in.json'', arg_output = Some [], arg_classname = ''Root''\<rparr>
     \<lparr>files = Map.empty, writable = (\<lambda>p. True), stdout = []\<rparr> =
   main (\<lambda>s. None) \<lparr>arg_input = ''in.json'', arg_output = None, arg_classname = ''Root''\<rparr>
     \<lparr>files = Map.empty, writable = (\<lambda>p. True), stdout = []\<rparr>"
  using main_empty_output_prints [of "\<lparr>arg_input = ''in.json'', arg_output = Some [], arg_classname = ''Root''\<rparr>"]
  by simp

end
