(* ===== verification/Depth.thy ===== *)
theory Depth
  imports Generator
begin

text \<open>
  The recursion of \<^verbatim>\<open>generate_apex_class\<close> (\<^verbatim>\<open>src/json2apex.py\<close>,
  lines 50--88) counted in activations: \<open>gen_class_bounded n\<close> is the generator
  allowed at most \<open>n\<close> nested activations of \<^verbatim>\<open>generate_apex_class\<close>, the
  top-level call included, with \<open>None\<close> when a call would exceed them. Its loop and
  loop body are those of \<open>Generator\<close>, in the same order, so that an
  \<^verbatim>\<open>IndexError\<close> met before the deepest object still wins. Only the activations of
  \<^verbatim>\<open>generate_apex_class\<close> are counted: the specification states that its recursion
  depth equals the nesting depth of the document, and that is what the lemmas below
  measure. The other frames of a Python run (the leaf helpers, and the recursion of
  \<^verbatim>\<open>infer_apex_type\<close> through nested arrays, line 42) are not counted, so the
  activation depth is a lower bound on the interpreter's stack depth and not the point at
  which CPython raises \<^verbatim>\<open>RecursionError\<close>. \<open>obj_depth\<close> is the nesting depth
  of the objects the generator descends into, \<open>obj_count\<close> their number.
\<close>

function obj_depth :: "(string \<times> json) list \<Rightarrow> nat" where
  "obj_depth [] = 0"
| "obj_depth ((k, v) # items) =
     max (if object_shaped v then Suc (obj_depth (nested_items v)) else 0) (obj_depth items)"
  by pat_completeness auto
termination
proof (relation "measure (\<lambda>d. size (JObj d))")
  fix k v items assume "object_shaped v"
  then show "(nested_items v, (k, v) # items) \<in> measure (\<lambda>d. size (JObj d))"
    by (cases v rule: object_shaped.cases) auto
qed simp_all

function obj_count :: "(string \<times> json) list \<Rightarrow> nat" where
  "obj_count [] = 0"
| "obj_count ((k, v) # items) =
     (if object_shaped v then Suc (obj_count (nested_items v)) else 0) + obj_count items"
  by pat_completeness auto
termination
proof (relation "measure (\<lambda>d. size (JObj d))")
  fix k v items assume "object_shaped v"
  then show "(nested_items v, (k, v) # items) \<in> measure (\<lambda>d. size (JObj d))"
    by (cases v rule: object_shaped.cases) auto
qed simp_all

fun gen_class_bounded :: "nat \<Rightarrow> string \<Rightarrow> (string \<times> json) list \<Rightarrow> nat \<Rightarrow> bool \<Rightarrow> string result option"
and gen_fields_bounded :: "nat \<Rightarrow> nat \<Rightarrow> (string \<times> json) list \<Rightarrow> (string list \<times> string list) result option"
and gen_item_bounded :: "nat \<Rightarrow> nat \<Rightarrow> string \<Rightarrow> json \<Rightarrow> (string \<times> string list) result option" where
  "gen_class_bounded 0 name json_data indent is_root = None"
| "gen_class_bounded (Suc n) name json_data indent is_root =
     (case class_name_of name of
        Inl e \<Rightarrow> Some (Inl e)
      | Inr class_name \<Rightarrow>
          (case gen_fields_bounded n indent json_data of
             None \<Rightarrow> None
           | Some (Inl e) \<Rightarrow> Some (Inl e)
           | Some (Inr (field_lines, inner_classes)) \<Rightarrow>
               Some (Inr (py_join newline
                 ([indent_str indent @ ''public class '' @ class_name @ '' {''] @ field_lines @
                  (if is_root then root_helpers (indent_str indent) class_name else []) @
                  inner_classes @ [indent_str indent @ ''}''])))))"
| "gen_fields_bounded n indent [] = Some (Inr ([], []))"
| "gen_fields_bounded n indent ((key, value) # items) =
     (case gen_item_bounded n indent key value of
        None \<Rightarrow> None
      | Some (Inl e) \<Rightarrow> Some (Inl e)
      | Some (Inr (line, nested_code)) \<Rightarrow>
          (case gen_fields_bounded n indent items of
             None \<Rightarrow> None
           | Some (Inl e) \<Rightarrow> Some (Inl e)
           | Some (Inr (field_lines, inner_classes)) \<Rightarrow>
               Some (Inr (line # field_lines, nested_code @ inner_classes))))"
| "gen_item_bounded n indent key value =
     (let field_name = safe_field_name key;
          comment = rename_comment key field_name
      in case value of
           JObj d \<Rightarrow>
             (case class_name_of key of
                Inl e \<Rightarrow> Some (Inl e)
              | Inr nested_class_name \<Rightarrow>
                  (case gen_class_bounded n key d (indent + 1) False of
                     None \<Rightarrow> None
                   | Some (Inl e) \<Rightarrow> Some (Inl e)
                   | Some (Inr nested_code) \<Rightarrow>
                       Some (Inr (field_line indent nested_class_name field_name comment, [nested_code]))))
         | JList (JObj d # _) \<Rightarrow>
             (case class_name_of key of
                Inl e \<Rightarrow> Some (Inl e)
              | Inr nested_class_name \<Rightarrow>
                  (case gen_class_bounded n key d (indent + 1) False of
                     None \<Rightarrow> None
                   | Some (Inl e) \<Rightarrow> Some (Inl e)
                   | Some (Inr nested_code) \<Rightarrow>
                       Some (Inr (field_line indent (''List<'' @ nested_class_name @ ''>'') field_name comment,
                            [nested_code]))))
         | _ \<Rightarrow> Some (Inr (field_line indent (infer_apex_type value) field_name comment, [])))"

lemma gen_item_bounded_eq:
  "gen_item_bounded n indent key v =
     (if object_shaped v then
        (case class_name_of key of
           Inl e \<Rightarrow> Some (Inl e)
         | Inr ncn \<Rightarrow>
             (case gen_class_bounded n key (nested_items v) (Suc indent) False of
                None \<Rightarrow> None
              | Some (Inl e) \<Rightarrow> Some (Inl e)
              | Some (Inr c) \<Rightarrow>
                  Some (Inr (field_line indent (ref_type v ncn) (safe_field_name key)
                         (rename_comment key (safe_field_name key)), [c]))))
      else Some (Inr (field_line indent (infer_apex_type v) (safe_field_name key)
             (rename_comment key (safe_field_name key)), [])))"
  by (cases v rule: object_shaped.cases)
     (auto simp add: Let_def ref_type_def split: sum.splits option.splits)

declare gen_item_bounded.simps [simp del]

lemma gen_class_bounded_Suc:
  "gen_fields_bounded n indent d = Some (gen_fields indent d) \<Longrightarrow>
   gen_class_bounded (Suc n) name d indent is_root = Some (generate_apex_class name d indent is_root)"
  by (simp split: sum.splits)

lemma gen_fields_bounded_enough:
  "obj_depth d \<le> n \<Longrightarrow> gen_fields_bounded n indent d = Some (gen_fields indent d)"
proof (induction d arbitrary: n indent rule: items_induct)
  case Nil
  then show ?case by simp
next
  case (Cons k v items)
  have item: "gen_item_bounded n indent k v = Some (gen_item indent k v)"
  proof (cases "object_shaped v")
    case True
    with Cons.prems obtain m where n: "n = Suc m" and le: "obj_depth (nested_items v) \<le> m"
      by (cases n) auto
    from gen_class_bounded_Suc [OF Cons.IH(1) [OF True le]]
    have "gen_class_bounded n k (nested_items v) (Suc indent) False =
        Some (generate_apex_class k (nested_items v) (Suc indent) False)" by (simp add: n)
    with True show ?thesis by (simp add: gen_item_bounded_eq gen_item_eq split: sum.splits)
  next
    case False
    then show ?thesis by (simp add: gen_item_bounded_eq gen_item_eq)
  qed
  have "gen_fields_bounded n indent items = Some (gen_fields indent items)"
    using Cons.prems by (intro Cons.IH(2)) simp
  with item show ?case by (simp split: sum.splits)
qed

lemma gen_item_bounded_Inr:
  assumes "names_ok [(k, v)]" and "object_shaped v \<Longrightarrow> obj_depth (nested_items v) < n"
  shows "\<exists>r. gen_item_bounded n indent k v = Some (Inr r)"
proof (cases "object_shaped v")
  case True
  with assms obtain m where n: "n = Suc m" and le: "obj_depth (nested_items v) \<le> m"
    and k: "k \<noteq> []" and ok: "names_ok (nested_items v)"
    by (cases n) (auto simp add: names_ok_Cons)
  from gen_class_bounded_Suc [OF gen_fields_bounded_enough [OF le]]
  have "gen_class_bounded n k (nested_items v) (Suc indent) False =
      Some (generate_apex_class k (nested_items v) (Suc indent) False)" by (simp add: n)
  moreover obtain c where "generate_apex_class k (nested_items v) (Suc indent) False = Inr c"
    using generate_apex_class_result [of k "nested_items v" "Suc indent" False] k ok
    by (auto simp del: generate_apex_class.simps split: sum.splits)
  ultimately show ?thesis using True k by (cases k) (simp_all add: gen_item_bounded_eq)
next
  case False
  then show ?thesis by (simp add: gen_item_bounded_eq)
qed

lemma gen_fields_bounded_exhausted:
  "names_ok d \<Longrightarrow> n < obj_depth d \<Longrightarrow> gen_fields_bounded n indent d = None"
proof (induction d arbitrary: n indent rule: items_induct)
  case Nil
  then show ?case by simp
next
  case (Cons k v items)
  have ok: "names_ok [(k, v)]" and oki: "names_ok items"
    using Cons.prems(1) by (simp_all add: names_ok_Cons)
  show ?case
  proof (cases "object_shaped v \<and> n \<le> obj_depth (nested_items v)")
    case True
    then have k: "k \<noteq> []" and okn: "names_ok (nested_items v)"
      using Cons.prems(1) by (simp_all add: names_ok_Cons)
    have "gen_class_bounded n k (nested_items v) (Suc indent) False = None"
    proof (cases n)
      case (Suc m)
      with True have "gen_fields_bounded m (Suc indent) (nested_items v) = None"
        using okn by (intro Cons.IH(1)) simp_all
      with Suc k show ?thesis by (cases k) simp_all
    qed simp
    with True k show ?thesis
      by (cases k) (simp_all add: gen_item_bounded_eq)
  next
    case False
    then have deep: "n < obj_depth items" using Cons.prems(2) by (auto split: if_splits)
    from False have "object_shaped v \<Longrightarrow> obj_depth (nested_items v) < n" by auto
    from gen_item_bounded_Inr [OF ok this] obtain r
      where "gen_item_bounded n indent k v = Some (Inr r)" ..
    with Cons.IH(2) [OF oki deep] show ?thesis by (cases r) simp
  qed
qed

lemma build_fields_count:
  "build_fields d = Inr (fs, ns) \<Longrightarrow> length (concat (map all_decls ns)) = obj_count d"
proof (induction d arbitrary: fs ns rule: items_induct)
  case Nil
  then show ?case by simp
next
  case (Cons k v items)
  then show ?case
    by (auto simp add: build_item_eq split: if_splits sum.splits)
qed

text \<open>C29: The generator's recursion ends within the nesting depth of the document:
  allowed more nested activations of \<^verbatim>\<open>generate_apex_class\<close> than the depth of the
  objects it descends into, the activation-bounded generator returns, with exactly the
  result of \<open>generate_apex_class\<close>.\<close>

theorem generate_terminates_within_depth:
  assumes "obj_depth d < n"
  shows "gen_class_bounded n name d indent is_root = Some (generate_apex_class name d indent is_root)"
proof -
  from assms obtain m where n: "n = Suc m" and le: "obj_depth d \<le> m" by (cases n) auto
  show ?thesis unfolding n by (rule gen_class_bounded_Suc [OF gen_fields_bounded_enough [OF le]])
qed

theorem generate_terminates_within_depth_witness:
  "obj_depth [(''a'', JObj [(''b'', JObj [])])] < 3 \<and>
   gen_class_bounded 3 ''Root'' [(''a'', JObj [(''b'', JObj [])])] 0 True =
     Some (generate_apex_class ''Root'' [(''a'', JObj [(''b'', JObj [])])] 0 True)"
proof -
  have d: "obj_depth [(''a'', JObj [(''b'', JObj [])])] < 3" by simp
  from generate_terminates_within_depth [OF d] d show ?thesis by simp
qed

text \<open>C30: The activation depth of the generator is exactly the nesting depth of the
  document plus one: when no \<^verbatim>\<open>IndexError\<close> intervenes (non-empty root name,
  non-empty keys on the way to every nested object), the activation-bounded generator
  fails exactly when it is allowed no more nested activations than the depth of the objects
  it descends into.\<close>

theorem generate_depth_exact:
  assumes "name \<noteq> []" and "names_ok d"
  shows "gen_class_bounded n name d indent is_root = None \<longleftrightarrow> n \<le> obj_depth d"
proof
  assume none: "gen_class_bounded n name d indent is_root = None"
  show "n \<le> obj_depth d"
  proof (rule ccontr)
    assume "\<not> n \<le> obj_depth d"
    then have "obj_depth d < n" by simp
    then obtain m where n: "n = Suc m" and le: "obj_depth d \<le> m" by (cases n) auto
    from none gen_class_bounded_Suc [OF gen_fields_bounded_enough [OF le]] show False
      unfolding n by (metis option.distinct(1))
  qed
next
  assume le: "n \<le> obj_depth d"
  show "gen_class_bounded n name d indent is_root = None"
  proof (cases n)
    case (Suc m)
    with le assms(2) have "gen_fields_bounded m indent d = None"
      by (intro gen_fields_bounded_exhausted) simp_all
    with Suc assms(1) show ?thesis by (cases name) simp_all
  qed simp
qed

theorem generate_depth_exact_witness:
  "''Root'' \<noteq> [] \<and> names_ok [(''a'', JObj [(''b'', JObj [])])] \<and>
   gen_class_bounded 2 ''Root'' [(''a'', JObj [(''b'', JObj [])])] 0 True = None"
proof -
  have n: "''Root'' \<noteq> []" and ok: "names_ok [(''a'', JObj [(''b'', JObj [])])]" by simp_all
  from generate_depth_exact [OF n ok, of 2 0 True] n ok show ?thesis by simp
qed

text \<open>C31: Each class text the generator prints is the rendering of the class tree built
  from the same object, and that tree holds exactly one class declaration per object the
  generator descends into, plus the class itself.\<close>

theorem generate_class_count:
  assumes "generate_apex_class name d indent is_root = Inr s"
  shows "\<exists>c. build_class name d is_root = Inr c \<and> s = render_class indent c \<and>
    length (all_decls c) = Suc (obj_count d)"
proof -
  from assms obtain cn fs ns where "build_fields d = Inr (fs, ns)"
    and "build_class name d is_root = Inr (ClassDecl cn fs is_root ns)"
    and "s = render_class indent (ClassDecl cn fs is_root ns)"
    by (rule generate_built)
  with build_fields_count show ?thesis by fastforce
qed

theorem generate_class_count_witness:
  "\<exists>c. build_class ''Root'' [(''a'', JObj []), (''b'', JList [JObj []])] False = Inr c \<and>
     ''public class Root {\<newline>    public A a;\<newline>    public List<B> b;\<newline>    public class A {\<newline>    }\<newline>    public class B {\<newline>    }\<newline>}'' = render_class 0 c \<and>
     length (all_decls c) = Suc (obj_count [(''a'', JObj []), (''b'', JList [JObj []])])"
proof -
  have h: "generate_apex_class ''Root'' [(''a'', JObj []), (''b'', JList [JObj []])] 0 False =
    Inr ''public class Root {\<newline>    public A a;\<newline>    public List<B> b;\<newline>    public class A {\<newline>    }\<newline>    public class B {\<newline>    }\<newline>}''"
    by code_simp
  from generate_class_count [OF h] show ?thesis .
qed

end
