(* ===== verification/Spec2Isabelle.thy ===== *)
theory Spec2Isabelle
  imports Cli Depth
begin

text \<open>
  \<^bold>\<open>A verified model of JsonToApexParser.\<close>

  The program (\<^verbatim>\<open>src/json2apex.py\<close>, one Python file) turns one sample JSON document
  into the text of an Apex class declaration. Its parts, in the order the code has them:
  \<^item> the reserved-word table \<^verbatim>\<open>APEX_KEYWORDS\<close> and the name sanitizer
    \<^verbatim>\<open>to_camel_case\<close>, \<^verbatim>\<open>is_apex_keyword\<close>, \<^verbatim>\<open>safe_field_name\<close>
    (lines 5--29);
  \<^item> the type inferrer \<^verbatim>\<open>infer_apex_type\<close> (lines 31--48);
  \<^item> the class tree generator \<^verbatim>\<open>generate_apex_class\<close> (lines 50--88), which calls
    both of the above for every key and calls itself for every object-shaped value;
  \<^item> the entry point \<^verbatim>\<open>convert_json_to_apex\<close> (lines 91--97), which selects the
    root object and calls the generator;
  \<^item> \<^verbatim>\<open>main\<close> (lines 99--118), which reads the input file, parses it with
    \<^verbatim>\<open>json.loads\<close>, calls the entry point and writes the result to the output file
    or prints it.
  Everything but \<^verbatim>\<open>main\<close> is a pure function of its arguments whose only effects
  are the two exceptions it can raise (\<^verbatim>\<open>IndexError\<close> from \<^verbatim>\<open>name[0]\<close> on
  an empty name, \<^verbatim>\<open>ValueError\<close> from the entry point); these are HOL functions with
  results of type \<open>py_error + _\<close>. \<^verbatim>\<open>main\<close> acts on files and standard output:
  it is a function on an explicit world (files, writable paths, standard output) that
  returns the final world and the exception that escapes, if any. All definitions are
  executable, so concrete runs evaluate by \<open>simp\<close> and \<open>code_simp\<close>.

  \<^bold>\<open>Theories.\<close>
  \<^item> \<open>Prelude\<close>: the exceptions (\<open>py_error\<close>, result type \<open>'a result\<close>) and the
    Python builtins the code relies on: \<^verbatim>\<open>str.split\<close> (\<open>py_split\<close>),
    \<^verbatim>\<open>str.join\<close> (\<open>py_join\<close>), \<^verbatim>\<open>upper\<close>/\<^verbatim>\<open>lower\<close>/\<^verbatim>\<open>capitalize\<close>,
    \<^verbatim>\<open>isidentifier\<close> and \<^verbatim>\<open>s[0]\<close>; the split/join round trip and the
    flattening of nested joins.
  \<^item> \<open>Json\<close>: the value tree (\<open>json\<close>), Python's \<^verbatim>\<open>isinstance\<close> tests on it
    with \<^verbatim>\<open>bool\<close> a subclass of \<^verbatim>\<open>int\<close>, the shape \<open>object_shaped\<close> that
    leads to a nested class, and \<open>items_induct\<close>, the induction principle that follows
    the generator's recursion.
  \<^item> \<open>Naming\<close>: \<open>APEX_KEYWORDS\<close>, \<open>to_camel_case\<close>, \<open>is_apex_keyword\<close>,
    \<open>safe_field_name\<close> and \<open>class_name_of\<close> (the expression
    \<^verbatim>\<open>name[0].upper() + to_camel_case(name[1:])\<close> of lines 54, 63, 68); and a
    one-pass reference transducer \<open>camel_pass\<close> for camelCasing.
  \<^item> \<open>TypeInfer\<close>: \<open>infer_apex_type\<close> with the \<^verbatim>\<open>isinstance\<close> chain in the
    source's order; the abstract types \<open>apex_type\<close>, the specification's classification
    \<open>type_of_json\<close>, the printer \<open>render_type\<close> and a parser \<open>parse_type\<close>.
  \<^item> \<open>ClassTree\<close>: the text pieces the generator assembles (\<open>indent_str\<close>,
    \<open>rename_comment\<close>, \<open>field_line\<close>, \<open>root_helpers\<close>) and the structured view of
    its output: record \<open>field_desc\<close>, datatype \<open>class_decl\<close>, \<open>build_class\<close>,
    \<open>render_class\<close> and \<open>render_lines\<close>, with the tree's invariants (root flags,
    characters avoided, balanced braces, indentation, field types resolving).
  \<^item> \<open>Generator\<close>: \<open>generate_apex_class\<close>, its loop \<open>gen_fields\<close> and loop body
    \<open>gen_item\<close>, in one mutual \<^theory_text>\<open>fun\<close>.
  \<^item> \<open>Driver\<close>: \<open>convert_json_to_apex\<close> and its default root name.
  \<^item> \<open>Cli\<close>: \<open>main\<close> over the argument record \<open>cli_args\<close> and the world
    record \<open>world\<close>, with \<open>read_file\<close>, \<open>write_file\<close>, \<open>py_print\<close> for
    \<^verbatim>\<open>open(..).read()\<close>, \<^verbatim>\<open>open(.., 'w').write(..)\<close> and \<^verbatim>\<open>print\<close>.
  \<^item> \<open>Depth\<close>: the generator's recursion with a budget of nested activations of
    \<^verbatim>\<open>generate_apex_class\<close> (\<open>gen_class_bounded\<close>, \<open>None\<close> when the budget
    is exceeded), the nesting depth \<open>obj_depth\<close> and the number \<open>obj_count\<close> of
    the objects it descends into.
  \<^item> this theory: the end-to-end properties and scenarios of the specification.

  \<^bold>\<open>What is proved.\<close>
  \<^item> Refinement: the string-building generator equals rendering a class-declaration tree
    built from the JSON (\<open>Generator.generate_refines_build\<close>); the type inferrer equals
    printing the specification's classification (\<open>TypeInfer.infer_refines_type_of_json\<close>).
  \<^item> Equivalence and bounds of the sanitizer: \<open>to_camel_case\<close> equals the one-pass
    transducer (\<open>Naming.to_camel_case_one_pass\<close>); on ASCII keys it removes exactly
    the underscores (\<open>Naming.safe_field_name_length\<close>) and otherwise only changes
    letter case; sanitizing is not injective (\<open>Naming.safe_field_name_collision\<close>).
  \<^item> Errors: exactly when each of the two exceptions is raised, for the generator
    (\<open>Generator.generate_apex_class_errors\<close>), the entry point
    (\<open>Driver.convert_errors\<close>) and \<open>main\<close> (\<open>Cli.main_convert_error\<close>).
  \<^item> Behaviour of the generator: one field line per key in key order with the prescribed
    type, name and rename comment; one nested class per object-shaped value, generated from
    the object or the first array element; the serialization helpers only on the root;
    every field type resolves to an Apex type or a nested class
    (\<open>Generator.generate_apex_class_typed\<close>).
  \<^item> The text: balanced curly braces when no key contains one
    (\<open>convert_braces_balanced\<close>), and, when no key contains a line break, the line
    structure: the root header, indented body lines, the closing brace
    (\<open>convert_line_structure\<close>, by the split/join round trip over \<open>render_lines\<close>).
  \<^item> Recursion depth: allowed more nested activations than the nesting depth, the
    activation-bounded generator returns the result of \<open>generate_apex_class\<close>
    (\<open>Depth.generate_terminates_within_depth\<close>); without an intervening
    \<^verbatim>\<open>IndexError\<close> it needs exactly that many activations plus one
    (\<open>Depth.generate_depth_exact\<close>), as the specification says; the tree the
    printed text renders, built from the same object, has one class per object visited
    plus the root (\<open>Depth.generate_class_count\<close>).
  \<^item> \<open>main\<close>: what it writes and prints on success, that it only appends to standard
    output and touches no file but the output path, and that the written file reads back
    as the generated class.
  \<^item> Scenarios of section 8 of the specification, evaluated in the kernel.
  \<^item> Findings: \<^verbatim>\<open>capitalize\<close> lower-cases the tail of a part, two
    keys can sanitize to the same field name or the same class name, a nested class can
    be named like its enclosing class, a key with a symbol other than the underscore still
    gives an illegal identifier, an empty key with an object value raises
    \<^verbatim>\<open>IndexError\<close>, a key with a line break breaks the line structure of the output,
    a leading underscore survives in class names, class names are not checked against
    the reserved words, and an empty output path prints instead of writing.

  \<^bold>\<open>Modelling choices.\<close> Strings are \<open>string\<close> (lists of 8-bit \<open>char\<close>);
  the case mappings and the identifier test are Python's on ASCII, and non-ASCII
  characters are treated as non-letters. A JSON object is the association list of its
  items in insertion order (the order of \<^verbatim>\<open>dict.items()\<close>); a float keeps its literal,
  which the code never reads. All recursion is structural on the JSON tree, so every
  function is total and no fuel is needed: termination of the generator is the
  termination proof of its mutual \<^theory_text>\<open>fun\<close> definition. Files are a map from
  paths to their text; a path is readable when it is in the map and writable when
  \<open>writable\<close> says so; \<^verbatim>\<open>print\<close> appends its text and a line break.

  \<^bold>\<open>Not modelled.\<close> How \<^verbatim>\<open>argparse\<close> turns the command line into the
  namespace (the model starts from the record \<open>cli_args\<close>, with the declared
  defaults in \<open>default_args\<close>); the JSON text parser \<^verbatim>\<open>json.loads\<close>, which is a
  parameter of \<open>main\<close> so that its lemmas hold for any parser; text encodings and
  I/O errors other than a missing input file and an unwritable output path;
  \<open>write_file\<close> takes \<^verbatim>\<open>open(path, 'w')\<close> and \<^verbatim>\<open>f.write\<close> as one
  step, so the model has no run in which the output file is truncated by the
  \<^verbatim>\<open>open\<close> and the \<^verbatim>\<open>write\<close> then raises (e.g. an encoding error), and no
  lemma here says what an escaping exception leaves behind; the interpreter's stack: the
  depth theorems count activations of \<^verbatim>\<open>generate_apex_class\<close> only, not the
  frames of the leaf helpers or of \<^verbatim>\<open>infer_apex_type\<close>'s recursion into nested
  arrays, so they do not give the depth at which CPython raises
  \<^verbatim>\<open>RecursionError\<close>. The Python string builtins are modelled on ASCII only:
  Unicode case mapping and non-ASCII identifier characters would need Unicode's tables;
  the lemmas whose truth depends on it (the length and case-only facts of the sanitizer)
  carry the hypothesis \<open>py_ascii\<close>, since Python's case mapping of other characters
  can change the length (\<^verbatim>\<open>'a_\u00df'\<close> camelCases to \<^verbatim>\<open>'aSs'\<close>). \<^verbatim>\<open>argparse\<close>'s
  argument syntax (abbreviations, attached values, combined flags) varies between Python
  versions and is not part of this repository, so it is left as the library's; the
  model of \<^verbatim>\<open>main\<close> holds for whatever namespace it produces.
\<close>

text \<open>
  On the specification's sample document the program prints the \<open>Root\<close> class
  with the fields \<open>userId\<close>, \<open>firstName\<close>, \<open>isActive\<close>, \<open>address\<close> typed
  Integer, String, Boolean and Address, the two serialization helpers, and the nested
  class \<open>Address\<close> with the field \<open>zipCode\<close>.
\<close>

theorem scenario_user_output:
  "convert_json_to_apex_default
     (JObj [(''user_id'', JInt 1), (''first_name'', JStr ''Ann''), (''is_active'', JBool True),
            (''address'', JObj [(''zip_code'', JStr ''10001'')])]) =
   Inr ''public class Root {\<newline>    public Integer userId;\<newline>    public String firstName;\<newline>    public Boolean isActive;\<newline>    public Address address;\<newline>\<newline>    public static Root fromJSON(String json) {\<newline>        return (Root) JSON.deserialize(json, Root.class);\<newline>    }\<newline>\<newline>    public String toJSON() {\<newline>        return JSON.serialize(this);\<newline>    }\<newline>    public class Address {\<newline>        public String zipCode;\<newline>    }\<newline>}''"
  by code_simp

text \<open>
  A key whose value is an empty array gives a field typed \<open>List<Object>\<close> and
  no nested class; a reserved key gets an underscore and a rename comment naming the
  original key.
\<close>

theorem scenario_tags_and_reserved_key:
  \<open>convert_json_to_apex_default (JObj [(''class'', JStr ''x''), (''tags'', JList [])]) =
   Inr ''public class Root {\<newline>    public String _class; // "class" -> _class\<newline>    public List<Object> tags;\<newline>\<newline>    public static Root fromJSON(String json) {\<newline>        return (Root) JSON.deserialize(json, Root.class);\<newline>    }\<newline>\<newline>    public String toJSON() {\<newline>        return JSON.serialize(this);\<newline>    }\<newline>}''\<close>
  by code_simp

text \<open>
  C16: The printed class text has as many opening as closing curly braces whenever the
  root name and the keys of the document contain none: every class body, every helper
  method and every nested class that is opened is closed.
\<close>

theorem convert_braces_balanced:
  assumes out: "convert_json_to_apex v r = Inr s"
    and root: "avoids ''{}'' r" and keys: "list_all (avoids ''{}'') (json_keys v)"
  shows "count_list s CHR ''{'' = count_list s CHR ''}''"
proof -
  have cs: "nonletters ''{}''" "avoids ''{}'' (''_ /-><'' @ [dquote])"
    by (simp_all add: nonletters_def py_char_defs)
  from convert_render [OF out cs root keys] obtain c where
    "s = render_class 0 c" and "decl_avoids ''{}'' c" by blast
  then show ?thesis using render_class_braces by simp
qed

theorem convert_braces_balanced_witness:
  "\<exists>s. convert_json_to_apex (JObj [(''a'', JObj [(''b'', JInt 1)])]) ''Root'' = Inr s \<and>
     avoids ''{}'' ''Root'' \<and> list_all (avoids ''{}'') (json_keys (JObj [(''a'', JObj [(''b'', JInt 1)])])) \<and>
     count_list s CHR ''{'' = count_list s CHR ''}''"
proof -
  define v where "v = JObj [(''a'', JObj [(''b'', JInt 1)])]"
  define out where "out = ''public class Root {\<newline>    public A a;\<newline>\<newline>    public static Root fromJSON(String json) {\<newline>        return (Root) JSON.deserialize(json, Root.class);\<newline>    }\<newline>\<newline>    public String toJSON() {\<newline>        return JSON.serialize(this);\<newline>    }\<newline>    public class A {\<newline>        public Integer b;\<newline>    }\<newline>}''"
  have h: "convert_json_to_apex v ''Root'' = Inr out"
    unfolding v_def out_def by code_simp
  have r: "avoids ''{}'' ''Root''" by simp
  have k: "list_all (avoids ''{}'') (json_keys v)" by (simp add: v_def)
  from convert_braces_balanced [OF h r k] h r k show ?thesis unfolding v_def by blast
qed

text \<open>
  C18: When neither the root name nor any key of the document contains a line break, the
  printed text splits at its line breaks into the header line of the root class, a body,
  and the closing brace; every body line is blank or indented by at least four spaces.
\<close>

theorem convert_line_structure:
  assumes out: "convert_json_to_apex v r = Inr s"
    and root: "avoids [CHR 0x0A] r" and keys: "list_all (avoids [CHR 0x0A]) (json_keys v)"
  shows "\<exists>cn body. class_name_of r = Inr cn \<and>
     py_split (CHR 0x0A) s = (''public class '' @ cn @ '' {'') # body @ [''}''] \<and>
     list_all (\<lambda>l. l = [] \<or> take 4 l = ''    '') body"
proof -
  have cs: "nonletters [CHR 0x0A]" "avoids [CHR 0x0A] (''_ /-><'' @ [dquote])"
    by (simp_all add: nonletters_def py_char_defs)
  from convert_render [OF out cs root keys] obtain cn fs ns where
    cn: "class_name_of r = Inr cn" and s: "s = render_class 0 (ClassDecl cn fs True ns)"
    and ok: "decl_avoids [CHR 0x0A] (ClassDecl cn fs True ns)" by blast
  define body where "body = map (render_field 0) fs @ root_helpers (indent_str 0) cn @
      concat (map (render_lines (Suc 0)) ns)"
  have lines: "render_lines 0 (ClassDecl cn fs True ns) = (''public class '' @ cn @ '' {'') # body @ [''}'']"
    and indented: "\<forall>l \<in> set body. l = [] \<or> (\<exists>rest. l = indent_str 1 @ rest)"
    using render_lines_body [of 0 cn fs True ns] by (simp_all add: body_def indent_str_def)
  have "\<forall>l \<in> set (render_lines 0 (ClassDecl cn fs True ns)). CHR 0x0A \<notin> set l"
    using render_lines_avoid_newline [OF ok, of 0] by (simp only: list_all_avoids_single)
  then have "py_split (CHR 0x0A) (py_join newline (render_lines 0 (ClassDecl cn fs True ns))) =
      render_lines 0 (ClassDecl cn fs True ns)"
    by (rule py_split_join [OF _ render_lines_not_Nil])
  then have "py_split (CHR 0x0A) s = render_lines 0 (ClassDecl cn fs True ns)"
    by (simp only: s render_class_lines)
  moreover have "list_all (\<lambda>l. l = [] \<or> take 4 l = ''    '') body"
  proof -
    have "indent_str 1 = ''    ''" by (simp add: indent_str_def)
    then show ?thesis using indented unfolding list_all_iff by fastforce
  qed
  ultimately show ?thesis using cn unfolding lines by blast
qed

theorem convert_line_structure_witness:
  "\<exists>s cn body. convert_json_to_apex (JObj [(''a'', JObj [(''b'', JInt 1)])]) ''Root'' = Inr s \<and>
     avoids [CHR 0x0A] ''Root'' \<and>
     list_all (avoids [CHR 0x0A]) (json_keys (JObj [(''a'', JObj [(''b'', JInt 1)])])) \<and>
     class_name_of ''Root'' = Inr cn \<and>
     py_split (CHR 0x0A) s = (''public class '' @ cn @ '' {'') # body @ [''}''] \<and>
     list_all (\<lambda>l. l = [] \<or> take 4 l = ''    '') body"
proof -
  define v where "v = JObj [(''a'', JObj [(''b'', JInt 1)])]"
  define out where "out = ''public class Root {\<newline>    public A a;\<newline>\<newline>    public static Root fromJSON(String json) {\<newline>        return (Root) JSON.deserialize(json, Root.class);\<newline>    }\<newline>\<newline>    public String toJSON() {\<newline>        return JSON.serialize(this);\<newline>    }\<newline>    public class A {\<newline>        public Integer b;\<newline>    }\<newline>}''"
  have h: "convert_json_to_apex v ''Root'' = Inr out"
    unfolding v_def out_def by code_simp
  have r: "avoids [CHR 0x0A] ''Root''" by simp
  have k: "list_all (avoids [CHR 0x0A]) (json_keys v)" by (simp add: v_def)
  from convert_line_structure [OF h r k] h r k show ?thesis unfolding v_def by blast
qed

text \<open>
  A key containing a line break is copied raw into the field name and the rename
  comment, so the printed class has a line that is neither blank, indented, a class header
  nor a closing brace: here the bare line \<open>b\<close>.
\<close>

theorem newline_key_breaks_lines:
  "\<exists>s. convert_json_to_apex_default (JObj [(''a'' @ newline @ ''b'', JInt 1)]) = Inr s \<and>
     ''b'' \<in> set (py_split (CHR 0x0A) s)"
proof -
  define out where "out = ''public class Root {\<newline>    public Integer _a\<newline>b; // ''
    @ [dquote] @ ''a\<newline>b'' @ [dquote] @ '' -> _a\<newline>b\<newline>\<newline>    public static Root fromJSON(String json) {\<newline>        return (Root) JSON.deserialize(json, Root.class);\<newline>    }\<newline>\<newline>    public String toJSON() {\<newline>        return JSON.serialize(this);\<newline>    }\<newline>}''"
  have "convert_json_to_apex_default (JObj [(''a'' @ newline @ ''b'', JInt 1)]) = Inr out"
    unfolding out_def by code_simp
  moreover have "''b'' \<in> set (py_split (CHR 0x0A) out)"
    unfolding out_def by code_simp
  ultimately show ?thesis by blast
qed

end
